theory Spec2Isabelle
  imports Main "HOL-Library.Word"
begin

section \<open>The azure-chroot builder (builder/azure/chroot/builder.go)\<close>

text \<open>
  A shallow embedding of \<^verbatim>\<open>Builder.Prepare\<close>, \<^verbatim>\<open>Builder.Run\<close> and
  \<^verbatim>\<open>buildsteps\<close>. Go strings are byte strings (\<open>string\<close>), a \<^verbatim>\<open>nil\<close> slice or
  pointer is \<open>None\<close> where the code tests for it, a Go \<^verbatim>\<open>error\<close> is a value of the
  datatype \<open>error\<close>, and a \<^verbatim>\<open>panic\<close> is the left summand of the result.
  Functions and types that builder.go imports from other files are taken as the fields of
  the record \<open>collaborators\<close>, so that every theorem about \<open>Prepare\<close>, \<open>buildsteps\<close>
  and \<open>Run\<close> holds for whatever those functions compute.
\<close>

subsection \<open>Errors\<close>

text \<open>
  \<^verbatim>\<open>errors.New(msg)\<close> and \<^verbatim>\<open>fmt.Errorf(format, args...)\<close> are kept as terms: the
  format string and its arguments, unformatted. A \<^verbatim>\<open>*packer.MultiError\<close> that is not
  nil is \<open>MultiErrorPtr\<close> of its \<^verbatim>\<open>Errors\<close> slice.
\<close>

datatype error =
    ErrorsNew string
  | Errorf string "arg list"
  | MultiErrorPtr "error list"
and arg =
    ArgString string
  | ArgStrings "string list"
  | ArgError error

text \<open>
  Modelled from the spec: \<^verbatim>\<open>packer.MultiErrorAppend(err, errs...)\<close> (packer/multi_error.go
  is not among the sources). Validation errors are "accumulated into a multi-error"; a first
  argument that is a multi-error (or nil) has the further errors appended to its list, a
  further error that is itself a multi-error contributing its members, and a first argument
  that is a plain error value "is turned into" a fresh multi-error that starts with it.
  The first argument is the Go interface value: \<open>None\<close> for nil (a nil
  \<^verbatim>\<open>*MultiError\<close> behaves the same).
\<close>

fun flattenErrors :: "error list \<Rightarrow> error list" where
  "flattenErrors [] = []"
| "flattenErrors (MultiErrorPtr es # rest) = es @ flattenErrors rest"
| "flattenErrors (e # rest) = e # flattenErrors rest"

fun MultiErrorAppend :: "error option \<Rightarrow> error list \<Rightarrow> error list" where
  "MultiErrorAppend None errs = flattenErrors errs"
| "MultiErrorAppend (Some (MultiErrorPtr es)) errs = es @ flattenErrors errs"
| "MultiErrorAppend (Some err) errs = err # errs"

text \<open>The accumulator \<^verbatim>\<open>var errs *packer.MultiError\<close> passed as the first argument.\<close>

definition asError :: "error list option \<Rightarrow> error option" where
  "asError errs = map_option MultiErrorPtr errs"

subsection \<open>strings.EqualFold and azcommon.StringsContains\<close>

definition isASCII :: "char \<Rightarrow> bool" where
  "isASCII c = ((of_char c :: nat) < 128)"

definition toLowerASCII :: "char \<Rightarrow> char" where
  "toLowerASCII c =
     (if 65 \<le> (of_char c :: nat) \<and> (of_char c :: nat) \<le> 90
      then char_of ((of_char c :: nat) + 32) else c)"

text \<open>
  Go's \<^verbatim>\<open>strings.EqualFold\<close>: equality of UTF-8 strings under Unicode simple case
  folding. Two ASCII bytes match when they are equal up to the case of a letter. A rune
  outside ASCII matches an ASCII letter in two cases only: U+017F (long s, bytes C5 BF)
  matches s and S, and U+212A (Kelvin sign, bytes E2 84 AA) matches k and K. Two runes
  outside ASCII are compared byte by byte here (their case tables are not modelled);
  every call in builder.go passes an ASCII literal as one argument, where this function
  is Go's.
\<close>

definition isLongS :: "char \<Rightarrow> char \<Rightarrow> bool" where
  "isLongS a b = ((of_char a :: nat) = 0xC5 \<and> (of_char b :: nat) = 0xBF)"

definition isKelvin :: "char \<Rightarrow> char \<Rightarrow> char \<Rightarrow> bool" where
  "isKelvin a b c =
     ((of_char a :: nat) = 0xE2 \<and> (of_char b :: nat) = 0x84 \<and> (of_char c :: nat) = 0xAA)"

text \<open>
  \<open>foldsOnto s c\<close>: the string \<open>s\<close> starts with a rune outside ASCII that folds onto
  the ASCII character \<open>c\<close>; the result is what is left of \<open>s\<close> after that rune, as the
  number of bytes the rune takes.
\<close>

fun foldsOnto :: "string \<Rightarrow> char \<Rightarrow> nat option" where
  "foldsOnto (a # b # rest) c =
     (if isLongS a b \<and> toLowerASCII c = CHR ''s'' then Some 2
      else (case rest of
              [] \<Rightarrow> None
            | d # rest' \<Rightarrow>
                if isKelvin a b d \<and> toLowerASCII c = CHR ''k'' then Some 3 else None))"
| "foldsOnto _ c = None"

fun EqualFold :: "string \<Rightarrow> string \<Rightarrow> bool" where
  "EqualFold [] [] = True"
| "EqualFold [] (y # ys) = False"
| "EqualFold (x # xs) [] = False"
| "EqualFold (x # xs) (y # ys) =
     (if isASCII x \<and> isASCII y then toLowerASCII x = toLowerASCII y \<and> EqualFold xs ys
      else if isASCII y then
        (case foldsOnto (x # xs) y of
           None \<Rightarrow> False
         | Some n \<Rightarrow> EqualFold (drop (n - 1) xs) ys)
      else if isASCII x then
        (case foldsOnto (y # ys) x of
           None \<Rightarrow> False
         | Some n \<Rightarrow> EqualFold xs (drop (n - 1) ys))
      else x = y \<and> EqualFold xs ys)"

text \<open>
  Modelled from the spec: \<^verbatim>\<open>azcommon.StringsContains(haystack, needle)\<close>
  (builder/azure/common is not among the sources), which decides whether "a shared-image
  destination is given": the key is one of the decoded keys.
\<close>

primrec StringsContains :: "string list \<Rightarrow> string \<Rightarrow> bool" where
  "StringsContains [] needle = False"
| "StringsContains (s # haystack) needle = (if s = needle then True else StringsContains haystack needle)"

subsection \<open>The configuration\<close>

text \<open>
  \<^verbatim>\<open>client.Config\<close> (the fields builder.go reads), \<^verbatim>\<open>client.PlatformImage\<close>,
  \<^verbatim>\<open>azure.Resource\<close> (the fields builder.go reads) and \<^verbatim>\<open>client.ComputeInfo\<close>
  (the fields builder.go reads).
\<close>

record ClientConfig =
  ClientSecret :: string
  ClientJWT :: string

record PlatformImage =
  Publisher :: string
  Offer :: string
  Sku :: string
  Version :: string

record Resource =
  Provider :: string
  ResourceType :: string
  ResourceName :: string

record ComputeInfo =
  Location :: string
  SubscriptionID :: string

type_synonym sourceType = string

definition sourcePlatformImage :: sourceType where
  "sourcePlatformImage = ''PlatformImage''"

definition sourceDisk :: sourceType where
  "sourceDisk = ''Disk''"

text \<open>
  \<^verbatim>\<open>Config\<close>. The type of \<^verbatim>\<open>SharedImageGalleryDestination\<close> is declared in a file
  that is not among the sources: it is the type parameter \<open>'sigd\<close>. \<^verbatim>\<open>ChrootMounts\<close>
  and \<^verbatim>\<open>CopyFiles\<close> are tested against nil, so they are optional lists (\<open>None\<close> is
  nil); the other slices are only measured and passed on. \<^verbatim>\<open>OSDiskSizeGB\<close> is an
  \<^verbatim>\<open>int32\<close>, a 32-bit word (only compared with 0). \<^verbatim>\<open>PackerConfig\<close> and
  \<^verbatim>\<open>ctx\<close> are only handed to collaborators and are left out.
\<close>

record 'sigd Config =
  ClientConfig :: ClientConfig
  FromScratch :: bool
  Source :: string
  sourceType :: sourceType
  CommandWrapper :: string
  PreMountCommands :: "string list"
  MountOptions :: "string list"
  MountPartition :: string
  MountPath :: string
  PostMountCommands :: "string list"
  ChrootMounts :: "string list list option"
  CopyFiles :: "string list option"
  OSDiskSizeGB :: "32 word"
  OSDiskStorageAccountType :: string
  OSDiskCacheType :: string
  ImageHyperVGeneration :: string
  TemporaryOSDiskID :: string
  TemporaryOSDiskSnapshotID :: string
  SkipCleanup :: bool
  ImageResourceID :: string
  SharedImageGalleryDestination :: 'sigd

definition BuilderID :: string where
  "BuilderID = ''azure.chroot''"

subsection \<open>Steps, the state bag and the artifact\<close>

text \<open>
  The steps \<^verbatim>\<open>buildsteps\<close> constructs, each with the fields of its struct in the order
  given here; a field that a struct literal of the source leaves out has Go's zero value
  (\<open>None\<close> for the nil \<^verbatim>\<open>*client.PlatformImage\<close>, the empty string, \<open>False\<close>).
  \<^item> \<open>StepVerifySharedImageDestination\<close>: Image, Location.
  \<^item> \<open>StepCreateNewDisk\<close>: ResourceID, DiskSizeGB, DiskStorageAccountType,
    HyperVGeneration, Location, PlatformImage, SourceDiskResourceID, SkipCleanup.
  \<^item> \<open>StepResolvePlatformImageVersion\<close>: PlatformImage, Location.
  \<^item> \<open>StepVerifySourceDisk\<close>: SourceDiskResourceID, Location.
  \<^item> \<open>StepPreMountCommands\<close>, \<open>StepPostMountCommands\<close>: Commands.
  \<^item> \<open>StepMountDevice\<close>: MountOptions, MountPartition, MountPath.
  \<^item> \<open>StepMountExtra\<close>: ChrootMounts. \<open>StepCopyFiles\<close>: Files.
  \<^item> \<open>StepCreateImage\<close>: ImageResourceID, ImageOSState, OSDiskCacheType,
    OSDiskStorageAccountType, Location.
  \<^item> \<open>StepCreateSnapshot\<close>: ResourceID, Location, SkipCleanup.
  \<^item> \<open>StepCreateSharedImageVersion\<close>: Destination, OSDiskCacheType, Location.
  In the source the resolve step and the create-disk step of a platform image hold the same
  pointer \<^verbatim>\<open>pi\<close>; here each holds the parsed value.
\<close>

datatype 'sigd Step =
    StepVerifySharedImageDestination 'sigd string
  | StepCreateNewDisk string "32 word" string string string "PlatformImage option" string bool
  | StepResolvePlatformImageVersion PlatformImage string
  | StepVerifySourceDisk string string
  | StepAttachDisk
  | StepPreMountCommands "string list"
  | StepMountDevice "string list" string string
  | StepPostMountCommands "string list"
  | StepMountExtra "string list list option"
  | StepCopyFiles "string list option"
  | StepChrootProvision
  | StepEarlyCleanup
  | StepCreateImage string string string string string
  | StepCreateSnapshot string string bool
  | StepCreateSharedImageVersion 'sigd string string

text \<open>
  The values \<^verbatim>\<open>Run\<close> and the steps put into the \<^verbatim>\<open>multistep.BasicStateBag\<close>. The
  entry \<^verbatim>\<open>"config"\<close> is the pointer \<^verbatim>\<open>&b.config\<close>: the configuration it points to is
  passed to the runner beside the bag and returned by it.
\<close>

datatype state_value =
    ConfigPtr
  | HookValue
  | UiValue
  | AzureClientValue
  | WrappedCommandValue
  | InstanceValue ComputeInfo
  | ErrorValue error
  | OtherValue string

type_synonym state_bag = "string \<rightharpoonup> state_value"

text \<open>
  Modelled from the spec: \<^verbatim>\<open>azcommon.Artifact\<close> (builder/azure/common is not among the
  sources): "the build's result: references to created cloud resources (managed image id
  and/or shared-image-version id)", the field \<open>Resources\<close>, beside the two fields
  \<^verbatim>\<open>Run\<close> sets. \<open>StateData\<close> is a Go map literal with one key, kept as an association
  list.
\<close>

record Artifact =
  Resources :: "string list"
  BuilderIdValue :: string
  StateData :: "(string \<times> state_value option) list"

datatype panic =
    PanicString "arg list"
  | PanicError error
  | PanicTypeAssertion

subsection \<open>Collaborators\<close>

text \<open>
  What builder.go calls in files that are not among the sources, as parameters:
  \<^item> \<open>Decode\<close>: \<^verbatim>\<open>config.Decode(&b.config, opts, raws...)\<close> on a fresh builder: the
    configuration after decoding, \<^verbatim>\<open>md.Keys\<close>, and the error;
  \<^item> \<open>SetDefaultValues\<close>, \<open>FillParameters\<close>: the methods of \<^verbatim>\<open>client.Config\<close>, which
    update it in place and return an error;
  \<^item> \<open>Render\<close>: \<^verbatim>\<open>interpolate.Render(template, &b.config.ctx)\<close>;
  \<^item> \<open>ParsePlatformImageURN\<close>: \<^verbatim>\<open>client.ParsePlatformImageURN\<close>;
  \<^item> \<open>ParseResourceID\<close>: \<^verbatim>\<open>azure.ParseResourceID\<close>;
  \<^item> \<open>Validate\<close>: \<^verbatim>\<open>SharedImageGalleryDestination.Validate(prefix)\<close>, errors and
    warnings;
  \<^item> \<open>DestinationResourceID\<close>: \<^verbatim>\<open>SharedImageGalleryDestination.ResourceID(subscriptionID)\<close>;
  \<^item> \<open>GOOS\<close>: \<^verbatim>\<open>runtime.GOOS\<close>;
  \<^item> \<open>NewClient\<close>: the error of \<^verbatim>\<open>client.New(b.config.ClientConfig, ui.Say)\<close>;
  \<^item> \<open>GetComputeInfo\<close>: \<^verbatim>\<open>azcli.MetadataClient().GetComputeInfo()\<close>;
  \<^item> \<open>RunSteps\<close>: \<^verbatim>\<open>common.NewRunner(steps, ...).Run(ctx, state)\<close>, on the
    configuration and the state bag.
  A Go pair \<^verbatim>\<open>(value, err)\<close> whose value is read only when \<^verbatim>\<open>err == nil\<close> is a
  sum, \<open>Inl\<close> the error.
\<close>

record ('raw, 'sigd) collaborators =
  Decode :: "'raw \<Rightarrow> 'sigd Config \<times> string list \<times> error option"
  SetDefaultValues :: "ClientConfig \<Rightarrow> ClientConfig \<times> error option"
  Render :: "string \<Rightarrow> error + string"
  ParsePlatformImageURN :: "string \<Rightarrow> error + PlatformImage"
  ParseResourceID :: "string \<Rightarrow> error + Resource"
  Validate :: "'sigd \<Rightarrow> string \<Rightarrow> error list \<times> string list"
  DestinationResourceID :: "'sigd \<Rightarrow> string \<Rightarrow> string"
  GOOS :: string
  FillParameters :: "ClientConfig \<Rightarrow> ClientConfig \<times> error option"
  NewClient :: "ClientConfig \<Rightarrow> error option"
  GetComputeInfo :: "error + ComputeInfo"
  RunSteps :: "'sigd Step list \<Rightarrow> 'sigd Config \<times> state_bag \<Rightarrow> 'sigd Config \<times> state_bag"

subsection \<open>The enumerations of the Azure SDK (compute, 2019-07-01)\<close>

text \<open>
  \<^verbatim>\<open>compute.PossibleCachingTypesValues()\<close>,
  \<^verbatim>\<open>compute.PossibleDiskStorageAccountTypesValues()\<close> and
  \<^verbatim>\<open>compute.PossibleHyperVGenerationValues()\<close>, and the constants builder.go names.
\<close>

definition CachingTypesReadOnly :: string where
  "CachingTypesReadOnly = ''ReadOnly''"

definition PremiumLRS :: string where
  "PremiumLRS = ''Premium_LRS''"

definition V1 :: string where
  "V1 = ''V1''"

definition Generalized :: string where
  "Generalized = ''Generalized''"

definition PossibleCachingTypesValues :: "string list" where
  "PossibleCachingTypesValues = [''None'', CachingTypesReadOnly, ''ReadWrite'']"

definition PossibleDiskStorageAccountTypesValues :: "string list" where
  "PossibleDiskStorageAccountTypesValues =
     [PremiumLRS, ''Standard_LRS'', ''StandardSSD_LRS'', ''UltraSSD_LRS'']"

definition PossibleHyperVGenerationValues :: "string list" where
  "PossibleHyperVGenerationValues = [V1, ''V2'']"

text \<open>
  The loop of \<^verbatim>\<open>checkDiskCacheType\<close>, \<^verbatim>\<open>checkStorageAccountType\<close> and
  \<^verbatim>\<open>checkHyperVGeneration\<close>: nil at the first value equal to \<open>s\<close>, the error
  after the last.
\<close>

primrec checkValues :: "string \<Rightarrow> string list \<Rightarrow> string list \<Rightarrow> error option" where
  "checkValues s possible [] =
     Some (Errorf ''%q is not a valid value %v'' [ArgString s, ArgStrings possible])"
| "checkValues s possible (v # vs) = (if s = v then None else checkValues s possible vs)"

definition checkDiskCacheType :: "string \<Rightarrow> error option" where
  "checkDiskCacheType s = checkValues s PossibleCachingTypesValues PossibleCachingTypesValues"

definition checkStorageAccountType :: "string \<Rightarrow> error option" where
  "checkStorageAccountType s =
     checkValues s PossibleDiskStorageAccountTypesValues PossibleDiskStorageAccountTypesValues"

definition checkHyperVGeneration :: "string \<Rightarrow> error option" where
  "checkHyperVGeneration s =
     checkValues s PossibleHyperVGenerationValues PossibleHyperVGenerationValues"

subsection \<open>Builder.Prepare\<close>

text \<open>
  The body of \<^verbatim>\<open>Prepare\<close> after the two early returns, block by block; each block takes
  the configuration \<^verbatim>\<open>b.config\<close> and the accumulator \<^verbatim>\<open>errs\<close> and returns
  what it changes.
\<close>

definition defaultChrootMounts :: "string list list" where
  "defaultChrootMounts =
     [[''proc'', ''proc'', ''/proc''],
      [''sysfs'', ''sysfs'', ''/sys''],
      [''bind'', ''/dev'', ''/dev''],
      [''devpts'', ''devpts'', ''/dev/pts''],
      [''binfmt_misc'', ''binfmt_misc'', ''/proc/sys/fs/binfmt_misc'']]"

definition temporaryDiskTemplate :: string where
  "temporaryDiskTemplate =
     ''/subscriptions/{{ vm `subscription_id` }}/resourceGroups/{{ vm `resource_group` }}/providers/Microsoft.Compute/disks/PackerTemp-osdisk-{{timestamp}}''"

definition temporarySnapshotTemplate :: string where
  "temporarySnapshotTemplate =
     ''/subscriptions/{{ vm `subscription_id` }}/resourceGroups/{{ vm `resource_group` }}/providers/Microsoft.Compute/snapshots/PackerTemp-osdisk-snapshot-{{timestamp}}''"

text \<open>Go's \<^verbatim>\<open>len\<close> of a slice that may be nil: the length of nil is 0.\<close>

definition len :: "'a list option \<Rightarrow> nat" where
  "len xs = (case xs of None \<Rightarrow> 0 | Some ys \<Rightarrow> length ys)"

text \<open>Lines 165 to 196: the defaults that cannot fail.\<close>

definition defaultLists :: "'sigd Config \<Rightarrow> 'sigd Config" where
  "defaultLists c =
     (let c = (if ChrootMounts c = None then c\<lparr>ChrootMounts := Some []\<rparr> else c);
          c = (if len (ChrootMounts c) = 0
               then c\<lparr>ChrootMounts := Some defaultChrootMounts\<rparr> else c);
          c = (if CopyFiles c = None
               then (if \<not> FromScratch c then c\<lparr>CopyFiles := Some [''/etc/resolv.conf'']\<rparr> else c)
               else c)
      in c)"

definition defaultMount :: "'sigd Config \<Rightarrow> 'sigd Config" where
  "defaultMount c =
     (let c = (if CommandWrapper c = [] then c\<lparr>CommandWrapper := ''{{.Command}}''\<rparr> else c);
          c = (if MountPath c = []
               then c\<lparr>MountPath := ''/mnt/packer-azure-chroot-disks/{{.Device}}''\<rparr> else c);
          c = (if MountPartition c = [] then c\<lparr>MountPartition := ''1''\<rparr> else c)
      in c)"

text \<open>Lines 198 to 216: the two rendered identifiers.\<close>

definition defaultTemporaryOSDiskID ::
  "('raw, 'sigd) collaborators \<Rightarrow> 'sigd Config \<times> error list option \<Rightarrow> 'sigd Config \<times> error list option" where
  "defaultTemporaryOSDiskID env = (\<lambda>(c, errs).
     if TemporaryOSDiskID c = [] then
       (case Render env temporaryDiskTemplate of
          Inr def \<Rightarrow> (c\<lparr>TemporaryOSDiskID := def\<rparr>, errs)
        | Inl err \<Rightarrow>
            (c, Some (MultiErrorAppend (asError errs)
                        [Errorf ''unable to render temporary disk id: %s'' [ArgError err]])))
     else (c, errs))"

definition defaultTemporaryOSDiskSnapshotID ::
  "('raw, 'sigd) collaborators \<Rightarrow> 'sigd Config \<times> error list option \<Rightarrow> 'sigd Config \<times> error list option" where
  "defaultTemporaryOSDiskSnapshotID env = (\<lambda>(c, errs).
     if TemporaryOSDiskSnapshotID c = [] then
       (case Render env temporarySnapshotTemplate of
          Inr def \<Rightarrow> (c\<lparr>TemporaryOSDiskSnapshotID := def\<rparr>, errs)
        | Inl err \<Rightarrow>
            (c, Some (MultiErrorAppend (asError errs)
                        [Errorf ''unable to render temporary snapshot id: %s'' [ArgError err]])))
     else (c, errs))"

text \<open>Lines 218 to 228.\<close>

definition defaultDiskTypes :: "'sigd Config \<Rightarrow> 'sigd Config" where
  "defaultDiskTypes c =
     (let c = (if OSDiskStorageAccountType c = []
               then c\<lparr>OSDiskStorageAccountType := PremiumLRS\<rparr> else c);
          c = (if OSDiskCacheType c = []
               then c\<lparr>OSDiskCacheType := CachingTypesReadOnly\<rparr> else c);
          c = (if ImageHyperVGeneration c = [] then c\<lparr>ImageHyperVGeneration := V1\<rparr> else c)
      in c)"

text \<open>
  Lines 232 to 257: the source. With \<^verbatim>\<open>from_scratch\<close> three independent checks;
  otherwise the source string is classified, the platform image parse first.
\<close>

definition checkFromScratch :: "'sigd Config \<Rightarrow> error list option \<Rightarrow> error list option" where
  "checkFromScratch c errs =
     (let errs = (if Source c \<noteq> []
                  then Some (MultiErrorAppend (asError errs)
                         [ErrorsNew ''source cannot be specified when building from_scratch''])
                  else errs);
          errs = (if OSDiskSizeGB c = 0
                  then Some (MultiErrorAppend (asError errs)
                         [ErrorsNew ''os_disk_size_gb is required with from_scratch''])
                  else errs);
          errs = (if length (PreMountCommands c) = 0
                  then Some (MultiErrorAppend (asError errs)
                         [ErrorsNew ''pre_mount_commands is required with from_scratch''])
                  else errs)
      in errs)"

definition isDiskResourceID :: "('raw, 'sigd) collaborators \<Rightarrow> string \<Rightarrow> bool" where
  "isDiskResourceID env src =
     (case ParseResourceID env src of
        Inl err \<Rightarrow> False
      | Inr rid \<Rightarrow>
          EqualFold (Provider rid) ''Microsoft.Compute'' \<and> EqualFold (ResourceType rid) ''disks'')"

definition sourceError :: "string \<Rightarrow> error" where
  "sourceError src =
     Errorf ''source: %q is not a valid platform image specifier, nor is it a disk resource ID''
       [ArgString src]"

definition checkSource ::
  "('raw, 'sigd) collaborators \<Rightarrow> 'sigd Config \<times> error list option \<Rightarrow> 'sigd Config \<times> error list option" where
  "checkSource env = (\<lambda>(c, errs).
     if FromScratch c then (c, checkFromScratch c errs)
     else (case ParsePlatformImageURN env (Source c) of
             Inr pi \<Rightarrow> (c\<lparr>sourceType := sourcePlatformImage\<rparr>, errs)
           | Inl err \<Rightarrow>
               if isDiskResourceID env (Source c) then (c\<lparr>sourceType := sourceDisk\<rparr>, errs)
               else (c, Some (MultiErrorAppend (asError errs) [sourceError (Source c)]))))"

text \<open>Lines 259 to 265.\<close>

definition checkDiskTypes :: "'sigd Config \<Rightarrow> error list option \<Rightarrow> error list option" where
  "checkDiskTypes c errs =
     (let errs = (case checkDiskCacheType (OSDiskCacheType c) of
                    Some err \<Rightarrow> Some (MultiErrorAppend (asError errs)
                                  [Errorf ''os_disk_cache_type: %v'' [ArgError err]])
                  | None \<Rightarrow> errs);
          errs = (case checkStorageAccountType (OSDiskStorageAccountType c) of
                    Some err \<Rightarrow> Some (MultiErrorAppend (asError errs)
                                  [Errorf ''os_disk_storage_account_type: %v'' [ArgError err]])
                  | None \<Rightarrow> errs)
      in errs)"

text \<open>
  Lines 267 to 275. The call is \<^verbatim>\<open>packer.MultiErrorAppend(fmt.Errorf(...))\<close>: the new
  error is the first argument, and \<^verbatim>\<open>errs\<close> is not an argument at all.
\<close>

definition notImageResourceID :: "('raw, 'sigd) collaborators \<Rightarrow> string \<Rightarrow> bool" where
  "notImageResourceID env src =
     (case ParseResourceID env src of
        Inl err \<Rightarrow> True
      | Inr r \<Rightarrow>
          \<not> EqualFold (Provider r) ''Microsoft.Compute'' \<or> \<not> EqualFold (ResourceType r) ''images'')"

definition imageResourceIDError :: "string \<Rightarrow> error" where
  "imageResourceIDError src =
     Errorf ''image_resource_id: %q is not a valid image resource id'' [ArgString src]"

definition checkImageResourceID ::
  "('raw, 'sigd) collaborators \<Rightarrow> 'sigd Config \<Rightarrow> error list option \<Rightarrow> error list option" where
  "checkImageResourceID env c errs =
     (if ImageResourceID c \<noteq> [] then
        (if notImageResourceID env (ImageResourceID c)
         then Some (MultiErrorAppend (Some (imageResourceIDError (ImageResourceID c))) [])
         else errs)
      else errs)"

text \<open>Lines 277 to 289: the shared image destination, errors and warnings.\<close>

definition outputRequiredError :: error where
  "outputRequiredError = ErrorsNew ''image_resource_id or shared_image_destination is required''"

definition checkSharedImageDestination ::
  "('raw, 'sigd) collaborators \<Rightarrow> string list \<Rightarrow> 'sigd Config \<Rightarrow>
     error list option \<times> string list \<Rightarrow> error list option \<times> string list" where
  "checkSharedImageDestination env keys c = (\<lambda>(errs, warns).
     let (errs, warns) =
           (if StringsContains keys ''shared_image_destination'' then
              (case Validate env (SharedImageGalleryDestination c) ''shared_image_destination'' of
                 (e, w) \<Rightarrow>
                   (if length e > 0 then Some (MultiErrorAppend (asError errs) e) else errs,
                    if length w > 0 then warns @ w else warns))
            else (errs, warns));
         errs = (if \<not> StringsContains keys ''shared_image_destination'' \<and> ImageResourceID c = []
                 then Some (MultiErrorAppend (asError errs) [outputRequiredError])
                 else errs)
     in (errs, warns))"

text \<open>Lines 291 to 293.\<close>

definition checkImageHyperVGeneration :: "'sigd Config \<Rightarrow> error list option \<Rightarrow> error list option" where
  "checkImageHyperVGeneration c errs =
     (case checkHyperVGeneration (ImageHyperVGeneration c) of
        Some err \<Rightarrow> Some (MultiErrorAppend (asError errs)
                      [Errorf ''image_hyperv_generation: %v'' [ArgError err]])
      | None \<Rightarrow> errs)"

text \<open>
  What a call of \<^verbatim>\<open>Prepare\<close> leaves behind: the builder's configuration
  (\<open>b_config\<close>, which the call updates in place also when it returns an error), the
  returned warnings and error (the first returned value is always nil), and the secrets
  handed to \<^verbatim>\<open>packer.LogSecretFilter.Set\<close> on success.
\<close>

record 'sigd prepared =
  b_config :: "'sigd Config"
  ret_warns :: "string list"
  ret_err :: "error option"
  log_secrets :: "string list"

text \<open>Lines 165 to 293, after the two early returns.\<close>

definition defaultsAndChecks ::
  "('raw, 'sigd) collaborators \<Rightarrow> string list \<Rightarrow> 'sigd Config \<Rightarrow>
     'sigd Config \<times> error list option \<times> string list" where
  "defaultsAndChecks env keys c0 =
     (let (c, errs) = (defaultMount (defaultLists c0), None);
          (c, errs) = defaultTemporaryOSDiskID env (c, errs);
          (c, errs) = defaultTemporaryOSDiskSnapshotID env (c, errs);
          c = defaultDiskTypes c;
          (c, errs) = checkSource env (c, errs);
          errs = checkDiskTypes c errs;
          errs = checkImageResourceID env c errs;
          (errs, warns) = checkSharedImageDestination env keys c (errs, []);
          errs = checkImageHyperVGeneration c errs
      in (c, errs, warns))"

definition Prepare :: "('raw, 'sigd) collaborators \<Rightarrow> 'raw \<Rightarrow> 'sigd prepared" where
  "Prepare env raws =
     (case Decode env raws of
        (c, keys, Some err) \<Rightarrow>
          \<lparr>b_config = c, ret_warns = [], ret_err = Some err, log_secrets = []\<rparr>
      | (c, keys, None) \<Rightarrow>
          (case SetDefaultValues env (ClientConfig c) of
             (cc, Some err) \<Rightarrow>
               \<lparr>b_config = c\<lparr>ClientConfig := cc\<rparr>, ret_warns = [], ret_err = Some err,
                 log_secrets = []\<rparr>
           | (cc, None) \<Rightarrow>
               (case defaultsAndChecks env keys (c\<lparr>ClientConfig := cc\<rparr>) of
                  (c, Some errs, warns) \<Rightarrow>
                    \<lparr>b_config = c, ret_warns = warns, ret_err = Some (MultiErrorPtr errs),
                      log_secrets = []\<rparr>
                | (c, None, warns) \<Rightarrow>
                    \<lparr>b_config = c, ret_warns = warns, ret_err = None,
                      log_secrets = [ClientSecret (ClientConfig c), ClientJWT (ClientConfig c)]\<rparr>)))"

subsection \<open>buildsteps\<close>

text \<open>Lines 422 to 475: the steps that make the disk, or the panic.\<close>

definition sourceSteps ::
  "('raw, 'sigd) collaborators \<Rightarrow> 'sigd Config \<Rightarrow> ComputeInfo \<Rightarrow> panic + 'sigd Step list" where
  "sourceSteps env config info =
     (if FromScratch config then
        Inr [StepCreateNewDisk (TemporaryOSDiskID config) (OSDiskSizeGB config)
               (OSDiskStorageAccountType config) (ImageHyperVGeneration config) (Location info)
               None [] False]
      else if sourceType config = sourcePlatformImage then
        (case ParsePlatformImageURN env (Source config) of
           Inr pi \<Rightarrow>
             Inr ((if EqualFold (Version pi) ''latest''
                   then [StepResolvePlatformImageVersion pi (Location info)] else [])
                  @ [StepCreateNewDisk (TemporaryOSDiskID config) (OSDiskSizeGB config)
                       (OSDiskStorageAccountType config) (ImageHyperVGeneration config)
                       (Location info) (Some pi) [] (SkipCleanup config)])
         | Inl err \<Rightarrow>
             Inl (PanicString [ArgString ''Couldn't parse platfrom image urn: '',
                               ArgString (Source config), ArgString '' err: '', ArgError err]))
      else if sourceType config = sourceDisk then
        Inr [StepVerifySourceDisk (Source config) (Location info),
             StepCreateNewDisk (TemporaryOSDiskID config) (OSDiskSizeGB config)
               (OSDiskStorageAccountType config) (ImageHyperVGeneration config) (Location info)
               None (Source config) (SkipCleanup config)]
      else
        Inl (PanicError (Errorf ''Unknown source type: %+q'' [ArgString (sourceType config)])))"

text \<open>Lines 477 to 498.\<close>

definition chrootSteps :: "'sigd Config \<Rightarrow> 'sigd Step list" where
  "chrootSteps config =
     [StepAttachDisk,
      StepPreMountCommands (PreMountCommands config),
      StepMountDevice (MountOptions config) (MountPartition config) (MountPath config),
      StepPostMountCommands (PostMountCommands config),
      StepMountExtra (ChrootMounts config),
      StepCopyFiles (CopyFiles config),
      StepChrootProvision,
      StepEarlyCleanup]"

definition hasValidSharedImage :: "('raw, 'sigd) collaborators \<Rightarrow> 'sigd Config \<Rightarrow> bool" where
  "hasValidSharedImage env config =
     (case Validate env (SharedImageGalleryDestination config) [] of (e, w) \<Rightarrow> length e = 0)"

definition buildsteps ::
  "('raw, 'sigd) collaborators \<Rightarrow> 'sigd Config \<Rightarrow> ComputeInfo \<Rightarrow> panic + 'sigd Step list" where
  "buildsteps env config info =
     (let steps = [];
          steps = (if hasValidSharedImage env config
                   then steps @ [StepVerifySharedImageDestination
                                   (SharedImageGalleryDestination config) (Location info)]
                   else steps)
      in case sourceSteps env config info of
           Inl p \<Rightarrow> Inl p
         | Inr src \<Rightarrow>
             (let steps = steps @ src;
                  steps = steps @ chrootSteps config;
                  steps = (if ImageResourceID config \<noteq> []
                           then steps @ [StepCreateImage (ImageResourceID config) Generalized
                                           (OSDiskCacheType config)
                                           (OSDiskStorageAccountType config) (Location info)]
                           else steps);
                  steps = (if hasValidSharedImage env config
                           then steps @ [StepCreateSnapshot (TemporaryOSDiskSnapshotID config)
                                           (Location info) (SkipCleanup config),
                                         StepCreateSharedImageVersion
                                           (SharedImageGalleryDestination config)
                                           (OSDiskCacheType config) (Location info)]
                           else steps)
              in Inr steps))"

subsection \<open>Builder.Run\<close>

text \<open>
  \<^verbatim>\<open>Run\<close> on the builder's configuration: the returned pair (artifact, error), or the
  panic of \<^verbatim>\<open>buildsteps\<close> or of the type assertion \<^verbatim>\<open>rawErr.(error)\<close>. The slice
  \<^verbatim>\<open>resources\<close> of lines 391 to 397 is computed and not read again, as in the source.
  Output on \<^verbatim>\<open>ui\<close> and the log is not modelled.
\<close>

definition initialState :: state_bag where
  "initialState =
     [''config'' \<mapsto> ConfigPtr, ''hook'' \<mapsto> HookValue, ''ui'' \<mapsto> UiValue,
      ''azureclient'' \<mapsto> AzureClientValue, ''wrappedCommand'' \<mapsto> WrappedCommandValue]"

definition computeInfoError :: error where
  "computeInfoError =
     Errorf (''Error retrieving information ARM resource ID and location'' @
             ''of the VM that Packer is running on.'' @ [CHR 0x0A] @
             ''Please verify that Packer is running on a proper Azure VM.'') []"

definition Run ::
  "('raw, 'sigd) collaborators \<Rightarrow> 'sigd Config \<Rightarrow> panic + (Artifact option \<times> error option)" where
  "Run env b_config0 =
     (if GOOS env \<noteq> ''linux'' then
        Inr (None, Some (ErrorsNew ''the azure-chroot builder only works on Linux environments''))
      else
        (case FillParameters env (ClientConfig b_config0) of
           (cc, Some err) \<Rightarrow>
             Inr (None, Some (Errorf ''error setting Azure client defaults: %v'' [ArgError err]))
         | (cc, None) \<Rightarrow>
             (let config = b_config0\<lparr>ClientConfig := cc\<rparr> in
              case NewClient env (ClientConfig config) of
                Some err \<Rightarrow>
                  Inr (None, Some (Errorf ''error creating Azure client: %v'' [ArgError err]))
              | None \<Rightarrow>
                  (let state = initialState in
                   case GetComputeInfo env of
                     Inl err \<Rightarrow> Inr (None, Some computeInfoError)
                   | Inr info \<Rightarrow>
                       (let state = state(''instance'' \<mapsto> InstanceValue info) in
                        case buildsteps env config info of
                          Inl p \<Rightarrow> Inl p
                        | Inr steps \<Rightarrow>
                            (case RunSteps env steps (config, state) of
                               (config, state) \<Rightarrow>
                                 (case state ''error'' of
                                    Some (ErrorValue rawErr) \<Rightarrow> Inr (None, Some rawErr)
                                  | Some v \<Rightarrow> Inl PanicTypeAssertion
                                  | None \<Rightarrow>
                                      (let artifact =
                                             \<lparr>Resources = [],
                                              BuilderIdValue = BuilderID,
                                              StateData =
                                                [(''generated_data'', state ''generated_data'')]\<rparr>;
                                           resources = [];
                                           resources =
                                             (if ImageResourceID config \<noteq> []
                                              then resources @ [ImageResourceID config]
                                              else resources);
                                           resources =
                                             (if hasValidSharedImage env config
                                              then resources @
                                                     [DestinationResourceID env
                                                        (SharedImageGalleryDestination config)
                                                        (SubscriptionID info)]
                                              else resources)
                                       in Inr (Some artifact, None)))))))))"

subsection \<open>The vocabulary of the specification\<close>

text \<open>
  The source classification in the spec's words: "attempt to parse source first as a
  platform-image specifier, and if that fails, as an existing-disk resource identifier
  belonging to the compute/disks namespace. Neither parse succeeding is a validation
  error." It is compared with \<open>checkSource\<close> below.
\<close>

datatype classification = ClassPlatformImage | ClassExistingDisk | ClassInvalid

definition classifySource :: "('raw, 'sigd) collaborators \<Rightarrow> string \<Rightarrow> classification" where
  "classifySource env src =
     (case ParsePlatformImageURN env src of
        Inr pi \<Rightarrow> ClassPlatformImage
      | Inl e \<Rightarrow>
          (case ParseResourceID env src of
             Inr r \<Rightarrow>
               if EqualFold (Provider r) ''Microsoft.Compute'' \<and> EqualFold (ResourceType r) ''disks''
               then ClassExistingDisk else ClassInvalid
           | Inl e' \<Rightarrow> ClassInvalid))"

text \<open>
  Kinds of steps, to read the order of a step list: filtering a list by a kind keeps the
  steps of that kind in the order in which they run.
\<close>

fun versionOrDiskStep :: "'sigd Step \<Rightarrow> bool" where
  "versionOrDiskStep (StepResolvePlatformImageVersion pi location) = True"
| "versionOrDiskStep (StepCreateNewDisk rid gb sku gen location pi src skip) = True"
| "versionOrDiskStep _ = False"

fun provisionOrLaterStep :: "'sigd Step \<Rightarrow> bool" where
  "provisionOrLaterStep StepChrootProvision = True"
| "provisionOrLaterStep StepEarlyCleanup = True"
| "provisionOrLaterStep (StepCreateImage rid state cache sku location) = True"
| "provisionOrLaterStep (StepCreateSnapshot rid location skip) = True"
| "provisionOrLaterStep (StepCreateSharedImageVersion dest cache location) = True"
| "provisionOrLaterStep _ = False"

text \<open>
  The \<^verbatim>\<open>SkipCleanup\<close> field of a create-disk step, as a list with that one flag;
  the empty list for every other step.
\<close>

fun createDiskSkipCleanup :: "'sigd Step \<Rightarrow> bool list" where
  "createDiskSkipCleanup (StepCreateNewDisk rid gb sku gen location pi src skip) = [skip]"
| "createDiskSkipCleanup _ = []"

subsection \<open>A concrete environment\<close>

text \<open>
  The theorems below hold for all collaborators. To evaluate \<open>Prepare\<close>,
  \<open>buildsteps\<close> and \<open>Run\<close> at concrete inputs, the collaborators are instantiated
  as follows.

  Modelled from the spec: \<^verbatim>\<open>client.ParsePlatformImageURN\<close> (builder/azure/common/client
  is not among the sources). "Platform-image parser: splits a colon-delimited 4-tuple; fails
  with ParseError if the shape does not match", the four parts being
  publisher:offer:sku:version.
\<close>

fun splitOn :: "char \<Rightarrow> string \<Rightarrow> string list" where
  "splitOn sep [] = [[]]"
| "splitOn sep (c # cs) =
     (if c = sep then [] # splitOn sep cs
      else (case splitOn sep cs of
              [] \<Rightarrow> [[c]]
            | part # parts \<Rightarrow> (c # part) # parts))"

definition parsePlatformImageURN :: "string \<Rightarrow> error + PlatformImage" where
  "parsePlatformImageURN urn =
     (case splitOn CHR '':'' urn of
        [p, offer, sku, v] \<Rightarrow> Inr \<lparr>Publisher = p, Offer = offer, Sku = sku, Version = v\<rparr>
      | _ \<Rightarrow> Inl (Errorf ''%q is not a valid platform image specifier'' [ArgString urn]))"

text \<open>
  Modelled from the spec: \<^verbatim>\<open>azure.ParseResourceID\<close> (go-autorest is not among the
  sources). "Resource-identifier parser: parses a hierarchical path-like identifier into
  provider/resource-type/name components": the path
  /subscriptions/S/resourceGroups/G/providers/P/T/N has provider P, resource type T and
  name N.
\<close>

definition parseResourceID :: "string \<Rightarrow> error + Resource" where
  "parseResourceID resourceID =
     (case splitOn CHR ''/'' resourceID of
        [root, subscriptions, s, resourceGroups, g, providers, p, t, n] \<Rightarrow>
          if root = [] \<and> subscriptions = ''subscriptions'' \<and> resourceGroups = ''resourceGroups''
             \<and> providers = ''providers''
          then Inr \<lparr>Provider = p, ResourceType = t, ResourceName = n\<rparr>
          else Inl (Errorf ''parsing failed for %s. Invalid resource Id format'' [ArgString resourceID])
      | _ \<Rightarrow> Inl (Errorf ''parsing failed for %s. Invalid resource Id format'' [ArgString resourceID]))"

text \<open>
  Modelled from the spec: \<^verbatim>\<open>SharedImageGalleryDestination\<close> with its methods
  \<^verbatim>\<open>Validate\<close> and \<^verbatim>\<open>ResourceID\<close> (shared_image_gallery_destination.go is not among
  the sources). "Shared-image destination: a versioned publication target for a build
  output", checked by "its own structural validator": a gallery, an image name and an image
  version in a resource group, each required, and no warnings.
\<close>

record destination =
  ResourceGroup :: string
  GalleryName :: string
  ImageName :: string
  ImageVersion :: string

definition validateDestination :: "destination \<Rightarrow> string \<Rightarrow> error list \<times> string list" where
  "validateDestination sigd prefix =
     ((if ResourceGroup sigd = [] then [Errorf ''%s.resource_group is required'' [ArgString prefix]] else [])
      @ (if GalleryName sigd = [] then [Errorf ''%s.gallery_name is required'' [ArgString prefix]] else [])
      @ (if ImageName sigd = [] then [Errorf ''%s.image_name is required'' [ArgString prefix]] else [])
      @ (if ImageVersion sigd = [] then [Errorf ''%s.image_version is required'' [ArgString prefix]] else []),
      [])"

definition destinationResourceID :: "destination \<Rightarrow> string \<Rightarrow> string" where
  "destinationResourceID sigd subscriptionID =
     ''/subscriptions/'' @ subscriptionID @ ''/resourceGroups/'' @ ResourceGroup sigd
     @ ''/providers/Microsoft.Compute/galleries/'' @ GalleryName sigd
     @ ''/images/'' @ ImageName sigd @ ''/versions/'' @ ImageVersion sigd"

text \<open>
  The environment: the raw configuration is the decoded configuration with its keys,
  decoding and the client never fail, a template renders to itself, the build runs on Linux
  on a virtual machine in westus2, and every step succeeds and leaves the state bag as it
  is.
\<close>

definition info0 :: ComputeInfo where
  "info0 = \<lparr>Location = ''westus2'', SubscriptionID = ''sub0''\<rparr>"

definition env0 :: "(destination Config \<times> string list, destination) collaborators" where
  "env0 =
     \<lparr>Decode = (\<lambda>(c, keys). (c, keys, None)),
      SetDefaultValues = (\<lambda>cc. (cc, None)),
      Render = (\<lambda>template. Inr template),
      ParsePlatformImageURN = parsePlatformImageURN,
      ParseResourceID = parseResourceID,
      Validate = validateDestination,
      DestinationResourceID = destinationResourceID,
      GOOS = ''linux'',
      FillParameters = (\<lambda>cc. (cc, None)),
      NewClient = (\<lambda>cc. None),
      GetComputeInfo = Inr info0,
      RunSteps = (\<lambda>steps (c, state). (c, state))\<rparr>"

text \<open>The zero value of \<^verbatim>\<open>Config\<close>, and three configurations a user can write.\<close>

definition noDestination :: destination where
  "noDestination = \<lparr>ResourceGroup = [], GalleryName = [], ImageName = [], ImageVersion = []\<rparr>"

definition zeroConfig :: "destination Config" where
  "zeroConfig =
     \<lparr>ClientConfig = \<lparr>ClientSecret = [], ClientJWT = []\<rparr>,
      FromScratch = False, Source = [], sourceType = [], CommandWrapper = [],
      PreMountCommands = [], MountOptions = [], MountPartition = [], MountPath = [],
      PostMountCommands = [], ChrootMounts = None, CopyFiles = None, OSDiskSizeGB = 0,
      OSDiskStorageAccountType = [], OSDiskCacheType = [], ImageHyperVGeneration = [],
      TemporaryOSDiskID = [], TemporaryOSDiskSnapshotID = [], SkipCleanup = False,
      ImageResourceID = [], SharedImageGalleryDestination = noDestination\<rparr>"

definition imageID0 :: string where
  "imageID0 = ''/subscriptions/sub0/resourceGroups/rg0/providers/Microsoft.Compute/images/img0''"

definition diskID0 :: string where
  "diskID0 = ''/subscriptions/sub0/resourceGroups/rg0/providers/Microsoft.Compute/disks/disk0''"

definition gallery0 :: destination where
  "gallery0 =
     \<lparr>ResourceGroup = ''rg0'', GalleryName = ''gallery0'', ImageName = ''img0'',
      ImageVersion = ''1.0.0''\<rparr>"

text \<open>source = "Canonical:UbuntuServer:18.04-LTS:latest", image_resource_id = imageID0.\<close>

definition platformConfig :: "destination Config" where
  "platformConfig =
     zeroConfig\<lparr>Source := ''Canonical:UbuntuServer:18.04-LTS:latest'', ImageResourceID := imageID0\<rparr>"

text \<open>source = diskID0, skip_cleanup = true, shared_image_destination = gallery0.\<close>

definition diskConfig :: "destination Config" where
  "diskConfig =
     zeroConfig\<lparr>Source := diskID0, SkipCleanup := True, SharedImageGalleryDestination := gallery0\<rparr>"

text \<open>
  from_scratch = true, os_disk_size_gb = 30, one pre-mount command, skip_cleanup = true,
  image_resource_id = imageID0.
\<close>

definition scratchConfig :: "destination Config" where
  "scratchConfig =
     zeroConfig\<lparr>FromScratch := True, OSDiskSizeGB := 30,
       PreMountCommands := [''mkfs.ext4 {{.Device}}''], SkipCleanup := True,
       ImageResourceID := imageID0\<rparr>"

text \<open>
  The same platform image with the version written in capitals:
  source = "Canonical:UbuntuServer:18.04-LTS:LATEST".
\<close>

definition upperConfig :: "destination Config" where
  "upperConfig = platformConfig\<lparr>Source := ''Canonical:UbuntuServer:18.04-LTS:LATEST''\<rparr>"

definition upperImage :: PlatformImage where
  "upperImage =
     \<lparr>Publisher = ''Canonical'', Offer = ''UbuntuServer'', Sku = ''18.04-LTS'', Version = ''LATEST''\<rparr>"

definition latestImage :: PlatformImage where
  "latestImage =
     \<lparr>Publisher = ''Canonical'', Offer = ''UbuntuServer'', Sku = ''18.04-LTS'', Version = ''latest''\<rparr>"

text \<open>The four configurations as \<open>Prepare\<close> leaves them in the builder.\<close>

definition platformResolved :: "destination Config" where
  "platformResolved = b_config (Prepare env0 (platformConfig, [''source'', ''image_resource_id'']))"

definition upperResolved :: "destination Config" where
  "upperResolved = b_config (Prepare env0 (upperConfig, [''source'', ''image_resource_id'']))"

definition diskResolved :: "destination Config" where
  "diskResolved =
     b_config (Prepare env0 (diskConfig, [''source'', ''skip_cleanup'', ''shared_image_destination'']))"

definition scratchResolved :: "destination Config" where
  "scratchResolved =
     b_config (Prepare env0 (scratchConfig,
       [''from_scratch'', ''os_disk_size_gb'', ''pre_mount_commands'', ''skip_cleanup'',
        ''image_resource_id'']))"


section \<open>Properties\<close>

subsection \<open>What each block of Prepare changes\<close>

lemma defaultLists_eq:
  "defaultLists c =
     c\<lparr>ChrootMounts :=
          (if ChrootMounts c = None \<or> ChrootMounts c = Some [] then Some defaultChrootMounts
           else ChrootMounts c),
       CopyFiles :=
          (if CopyFiles c = None \<and> \<not> FromScratch c then Some [''/etc/resolv.conf'']
           else CopyFiles c)\<rparr>"
  by (cases "ChrootMounts c") (auto simp: defaultLists_def Let_def len_def)

lemma defaultMount_eq:
  "defaultMount c =
     c\<lparr>CommandWrapper := (if CommandWrapper c = [] then ''{{.Command}}'' else CommandWrapper c),
       MountPath :=
         (if MountPath c = [] then ''/mnt/packer-azure-chroot-disks/{{.Device}}'' else MountPath c),
       MountPartition := (if MountPartition c = [] then ''1'' else MountPartition c)\<rparr>"
  by (simp add: defaultMount_def Let_def)

lemma defaultDiskTypes_eq:
  "defaultDiskTypes c =
     c\<lparr>OSDiskStorageAccountType :=
         (if OSDiskStorageAccountType c = [] then PremiumLRS else OSDiskStorageAccountType c),
       OSDiskCacheType := (if OSDiskCacheType c = [] then CachingTypesReadOnly else OSDiskCacheType c),
       ImageHyperVGeneration := (if ImageHyperVGeneration c = [] then V1 else ImageHyperVGeneration c)\<rparr>"
  by (simp add: defaultDiskTypes_def Let_def)

lemma defaultTemporaryOSDiskID_fst:
  "fst (defaultTemporaryOSDiskID env (c, errs)) =
     c\<lparr>TemporaryOSDiskID :=
         (if TemporaryOSDiskID c = [] then
            (case Render env temporaryDiskTemplate of Inr d \<Rightarrow> d | Inl e \<Rightarrow> TemporaryOSDiskID c)
          else TemporaryOSDiskID c)\<rparr>"
  by (simp add: defaultTemporaryOSDiskID_def split: sum.splits)

lemma defaultTemporaryOSDiskSnapshotID_fst:
  "fst (defaultTemporaryOSDiskSnapshotID env (c, errs)) =
     c\<lparr>TemporaryOSDiskSnapshotID :=
         (if TemporaryOSDiskSnapshotID c = [] then
            (case Render env temporarySnapshotTemplate of Inr d \<Rightarrow> d | Inl e \<Rightarrow> TemporaryOSDiskSnapshotID c)
          else TemporaryOSDiskSnapshotID c)\<rparr>"
  by (simp add: defaultTemporaryOSDiskSnapshotID_def split: sum.splits)

lemma checkSource_fst:
  "fst (checkSource env (c, errs)) =
     c\<lparr>sourceType :=
         (if FromScratch c then sourceType c
          else (case ParsePlatformImageURN env (Source c) of
                  Inr pi \<Rightarrow> sourcePlatformImage
                | Inl e \<Rightarrow> if isDiskResourceID env (Source c) then sourceDisk else sourceType c))\<rparr>"
  by (simp add: checkSource_def split: sum.splits)

lemma checkFromScratch_None:
  "checkFromScratch c errs = None \<longleftrightarrow>
     errs = None \<and> Source c = [] \<and> OSDiskSizeGB c \<noteq> 0 \<and> PreMountCommands c \<noteq> []"
  by (auto simp: checkFromScratch_def Let_def)

lemma checkSource_None:
  "snd (checkSource env (c, errs)) = None \<longleftrightarrow>
     errs = None \<and>
     (if FromScratch c then Source c = [] \<and> OSDiskSizeGB c \<noteq> 0 \<and> PreMountCommands c \<noteq> []
      else (case ParsePlatformImageURN env (Source c) of
              Inr pi \<Rightarrow> True | Inl e \<Rightarrow> isDiskResourceID env (Source c)))"
  by (auto simp: checkSource_def checkFromScratch_None split: sum.splits)

lemma checkDiskTypes_None:
  "checkDiskTypes c errs = None \<longleftrightarrow>
     errs = None \<and> checkDiskCacheType (OSDiskCacheType c) = None
     \<and> checkStorageAccountType (OSDiskStorageAccountType c) = None"
  by (auto simp: checkDiskTypes_def Let_def split: option.splits)

lemma checkImageResourceID_None:
  "checkImageResourceID env c errs = None \<longleftrightarrow>
     errs = None \<and> (ImageResourceID c = [] \<or> \<not> notImageResourceID env (ImageResourceID c))"
  by (auto simp: checkImageResourceID_def)

lemma checkSharedImageDestination_None:
  "fst (checkSharedImageDestination env keys c (errs, warns)) = None \<longleftrightarrow>
     errs = None \<and>
     (if StringsContains keys ''shared_image_destination''
      then fst (Validate env (SharedImageGalleryDestination c) ''shared_image_destination'') = []
      else ImageResourceID c \<noteq> [])"
  by (auto simp: checkSharedImageDestination_def Let_def split: prod.splits)

lemma checkImageHyperVGeneration_None:
  "checkImageHyperVGeneration c errs = None \<longleftrightarrow>
     errs = None \<and> checkHyperVGeneration (ImageHyperVGeneration c) = None"
  by (auto simp: checkImageHyperVGeneration_def split: option.splits)

lemma defaultTemporaryOSDiskID_None:
  "snd (defaultTemporaryOSDiskID env (c, errs)) = None \<longleftrightarrow>
     errs = None \<and> (TemporaryOSDiskID c = [] \<longrightarrow> (\<exists>d. Render env temporaryDiskTemplate = Inr d))"
  by (auto simp: defaultTemporaryOSDiskID_def split: sum.splits)

lemma defaultTemporaryOSDiskSnapshotID_None:
  "snd (defaultTemporaryOSDiskSnapshotID env (c, errs)) = None \<longleftrightarrow>
     errs = None \<and> (TemporaryOSDiskSnapshotID c = [] \<longrightarrow> (\<exists>d. Render env temporarySnapshotTemplate = Inr d))"
  by (auto simp: defaultTemporaryOSDiskSnapshotID_def split: sum.splits)


lemma defaultTemporaryOSDiskID_fst':
  "fst (defaultTemporaryOSDiskID env p) =
     (fst p)\<lparr>TemporaryOSDiskID :=
         (if TemporaryOSDiskID (fst p) = [] then
            (case Render env temporaryDiskTemplate of Inr d \<Rightarrow> d | Inl e \<Rightarrow> TemporaryOSDiskID (fst p))
          else TemporaryOSDiskID (fst p))\<rparr>"
  by (cases p) (simp add: defaultTemporaryOSDiskID_fst cong: sum.case_cong)

lemma defaultTemporaryOSDiskSnapshotID_fst':
  "fst (defaultTemporaryOSDiskSnapshotID env p) =
     (fst p)\<lparr>TemporaryOSDiskSnapshotID :=
         (if TemporaryOSDiskSnapshotID (fst p) = [] then
            (case Render env temporarySnapshotTemplate of Inr d \<Rightarrow> d
             | Inl e \<Rightarrow> TemporaryOSDiskSnapshotID (fst p))
          else TemporaryOSDiskSnapshotID (fst p))\<rparr>"
  by (cases p) (simp add: defaultTemporaryOSDiskSnapshotID_fst cong: sum.case_cong)

lemmas config_simps =
  defaultLists_eq defaultMount_eq defaultDiskTypes_eq defaultTemporaryOSDiskID_fst'
  defaultTemporaryOSDiskSnapshotID_fst' checkSource_fst

lemma defaultsAndChecks_frame:
  "FromScratch (fst (defaultsAndChecks env keys c0)) = FromScratch c0"
  "Source (fst (defaultsAndChecks env keys c0)) = Source c0"
  "ImageResourceID (fst (defaultsAndChecks env keys c0)) = ImageResourceID c0"
  "SharedImageGalleryDestination (fst (defaultsAndChecks env keys c0)) = SharedImageGalleryDestination c0"
  "SkipCleanup (fst (defaultsAndChecks env keys c0)) = SkipCleanup c0"
  "ClientConfig (fst (defaultsAndChecks env keys c0)) = ClientConfig c0"
  by (simp_all add: defaultsAndChecks_def Let_def case_prod_beta config_simps split del: if_split cong: if_cong sum.case_cong)

lemma defaultsAndChecks_sourceType:
  "sourceType (fst (defaultsAndChecks env keys c0)) =
     (if FromScratch c0 then sourceType c0
      else (case ParsePlatformImageURN env (Source c0) of
              Inr pi \<Rightarrow> sourcePlatformImage
            | Inl e \<Rightarrow> if isDiskResourceID env (Source c0) then sourceDisk else sourceType c0))"
  by (simp add: defaultsAndChecks_def Let_def case_prod_beta config_simps split del: if_split cong: if_cong sum.case_cong)

lemma defaultsAndChecks_lists:
  "ChrootMounts (fst (defaultsAndChecks env keys c0)) =
     (if ChrootMounts c0 = None \<or> ChrootMounts c0 = Some [] then Some defaultChrootMounts
      else ChrootMounts c0)"
  "CopyFiles (fst (defaultsAndChecks env keys c0)) =
     (if CopyFiles c0 = None \<and> \<not> FromScratch c0 then Some [''/etc/resolv.conf'']
      else CopyFiles c0)"
  by (simp_all add: defaultsAndChecks_def Let_def case_prod_beta config_simps split del: if_split cong: if_cong sum.case_cong)


lemma checkSource_None':
  "snd (checkSource env p) = None \<longleftrightarrow>
     snd p = None \<and>
     (if FromScratch (fst p)
      then Source (fst p) = [] \<and> OSDiskSizeGB (fst p) \<noteq> 0 \<and> PreMountCommands (fst p) \<noteq> []
      else (case ParsePlatformImageURN env (Source (fst p)) of
              Inr pi \<Rightarrow> True | Inl e \<Rightarrow> isDiskResourceID env (Source (fst p))))"
  by (cases p) (simp add: checkSource_None cong: sum.case_cong)

lemma checkSharedImageDestination_None':
  "fst (checkSharedImageDestination env keys c p) = None \<longleftrightarrow>
     fst p = None \<and>
     (if StringsContains keys ''shared_image_destination''
      then fst (Validate env (SharedImageGalleryDestination c) ''shared_image_destination'') = []
      else ImageResourceID c \<noteq> [])"
  by (cases p) (simp add: checkSharedImageDestination_None)

lemma defaultsAndChecks_None:
  assumes "fst (snd (defaultsAndChecks env keys c0)) = None"
  shows "if FromScratch c0
         then Source c0 = [] \<and> OSDiskSizeGB c0 \<noteq> 0 \<and> PreMountCommands c0 \<noteq> []
         else (case ParsePlatformImageURN env (Source c0) of
                 Inr pi \<Rightarrow> True | Inl e \<Rightarrow> isDiskResourceID env (Source c0))"
    and "if StringsContains keys ''shared_image_destination''
         then fst (Validate env (SharedImageGalleryDestination c0) ''shared_image_destination'') = []
         else ImageResourceID c0 \<noteq> []"
    and "ImageResourceID c0 = [] \<or> \<not> notImageResourceID env (ImageResourceID c0)"
  using assms
  by (simp_all add: defaultsAndChecks_def Let_def case_prod_beta config_simps
        checkImageHyperVGeneration_None checkSharedImageDestination_None'
        checkImageResourceID_None checkDiskTypes_None checkSource_None'
        split del: if_split cong: if_cong sum.case_cong)

subsection \<open>The outcomes of Prepare\<close>

lemma Prepare_checked:
  assumes "Decode env raws = (c, keys, None)"
    and "SetDefaultValues env (ClientConfig c) = (cc, None)"
  shows "b_config (Prepare env raws) = fst (defaultsAndChecks env keys (c\<lparr>ClientConfig := cc\<rparr>))"
    and "ret_err (Prepare env raws) =
           map_option MultiErrorPtr (fst (snd (defaultsAndChecks env keys (c\<lparr>ClientConfig := cc\<rparr>))))"
  using assms by (simp_all add: Prepare_def case_prod_beta split: option.splits)

lemma Prepare_early:
  assumes "Decode env raws = (c, keys, eo)"
    and "SetDefaultValues env (ClientConfig c) = (cc, eo')"
    and "eo \<noteq> None \<or> eo' \<noteq> None"
  shows "ret_err (Prepare env raws) \<noteq> None"
  using assms by (cases eo; cases eo') (simp_all add: Prepare_def case_prod_beta split: option.splits)

lemma Prepare_ok:
  assumes "ret_err (Prepare env raws) = None"
  obtains c keys cc where "Decode env raws = (c, keys, None)"
    and "SetDefaultValues env (ClientConfig c) = (cc, None)"
    and "fst (snd (defaultsAndChecks env keys (c\<lparr>ClientConfig := cc\<rparr>))) = None"
proof -
  obtain c keys eo where d: "Decode env raws = (c, keys, eo)"
    by (cases "Decode env raws") auto
  obtain cc eo' where s: "SetDefaultValues env (ClientConfig c) = (cc, eo')"
    by (cases "SetDefaultValues env (ClientConfig c)") auto
  from Prepare_early [OF d s] assms have "\<not> (eo \<noteq> None \<or> eo' \<noteq> None)" by blast
  then have e: "eo = None" "eo' = None" by simp_all
  from Prepare_checked(2) [of env raws c keys cc] d s e assms
  have "fst (snd (defaultsAndChecks env keys (c\<lparr>ClientConfig := cc\<rparr>))) = None" by simp
  with d s e that show thesis by blast
qed


lemma Prepare_ok_source:
  assumes ok: "ret_err (Prepare env raws) = None"
    and urn: "ParsePlatformImageURN env [] = Inl e1"
    and rid: "ParseResourceID env [] = Inl e2"
  shows "FromScratch (fst (Decode env raws)) \<longleftrightarrow> Source (fst (Decode env raws)) = []"
proof -
  from ok obtain c keys cc where d: "Decode env raws = (c, keys, None)"
    and n: "fst (snd (defaultsAndChecks env keys (c\<lparr>ClientConfig := cc\<rparr>))) = None"
    by (rule Prepare_ok)
  from defaultsAndChecks_None(1) [OF n] have
    "if FromScratch c then Source c = []
     else (case ParsePlatformImageURN env (Source c) of
             Inr pi \<Rightarrow> True | Inl e \<Rightarrow> isDiskResourceID env (Source c))"
    by (simp split del: if_split cong: if_cong sum.case_cong)
  with urn rid have "FromScratch c \<longleftrightarrow> Source c = []"
    by (cases "FromScratch c"; cases "Source c = []") (simp_all add: isDiskResourceID_def)
  with d show ?thesis by simp
qed

lemma Prepare_keeps_source:
  "FromScratch (b_config (Prepare env raws)) = FromScratch (fst (Decode env raws))"
  "Source (b_config (Prepare env raws)) = Source (fst (Decode env raws))"
proof -
  obtain c keys eo where d: "Decode env raws = (c, keys, eo)"
    by (cases "Decode env raws") auto
  obtain cc eo' where s: "SetDefaultValues env (ClientConfig c) = (cc, eo')"
    by (cases "SetDefaultValues env (ClientConfig c)") auto
  have "FromScratch (b_config (Prepare env raws)) = FromScratch c
        \<and> Source (b_config (Prepare env raws)) = Source c"
  proof (cases "eo = None \<and> eo' = None")
    case True
    with d s Prepare_checked(1) [of env raws c keys cc] show ?thesis
      by (simp add: defaultsAndChecks_frame)
  next
    case False
    with d s show ?thesis
      by (cases eo; cases eo') (simp_all add: Prepare_def)
  qed
  with d show "FromScratch (b_config (Prepare env raws)) = FromScratch (fst (Decode env raws))"
    "Source (b_config (Prepare env raws)) = Source (fst (Decode env raws))"
    by simp_all
qed

subsection \<open>Prepare: source and output requirements\<close>

text \<open>
  C3. After \<open>Prepare\<close> returns without error, exactly one of \<^verbatim>\<open>from_scratch\<close> and a
  non-empty \<^verbatim>\<open>source\<close> holds in the builder's configuration; a raw configuration that
  decodes to both, or to neither, makes \<open>Prepare\<close> return an error. The two parsers are
  not among the sources: the theorem holds for every pair of parsers that reject the empty
  string.
\<close>

theorem Prepare_from_scratch_xor_source:
  assumes urn: "ParsePlatformImageURN env [] = Inl e1"
    and rid: "ParseResourceID env [] = Inl e2"
  shows "(ret_err (Prepare env raws) = None \<longrightarrow>
            (FromScratch (b_config (Prepare env raws)) \<longleftrightarrow> Source (b_config (Prepare env raws)) = []))
         \<and> ((FromScratch (fst (Decode env raws)) \<longleftrightarrow> Source (fst (Decode env raws)) \<noteq> []) \<longrightarrow>
            ret_err (Prepare env raws) \<noteq> None)"
  using Prepare_ok_source [OF _ urn rid, of raws] Prepare_keeps_source [of env raws]
  by auto

theorem Prepare_from_scratch_xor_source_witness:
  "ParsePlatformImageURN env0 [] =
     Inl (Errorf ''%q is not a valid platform image specifier'' [ArgString []])
   \<and> ParseResourceID env0 [] =
     Inl (Errorf ''parsing failed for %s. Invalid resource Id format'' [ArgString []])
   \<and> ret_err (Prepare env0 (platformConfig, [''source'', ''image_resource_id''])) = None
   \<and> \<not> FromScratch (b_config (Prepare env0 (platformConfig, [''source'', ''image_resource_id''])))
   \<and> Source (b_config (Prepare env0 (platformConfig, [''source'', ''image_resource_id''])))
       = ''Canonical:UbuntuServer:18.04-LTS:latest''
   \<and> Source (fst (Decode env0 (zeroConfig, []))) = []
   \<and> \<not> FromScratch (fst (Decode env0 (zeroConfig, [])))
   \<and> ret_err (Prepare env0 (zeroConfig, [])) \<noteq> None"
proof -
  have u: "ParsePlatformImageURN env0 [] =
             Inl (Errorf ''%q is not a valid platform image specifier'' [ArgString []])"
    by code_simp
  have r: "ParseResourceID env0 [] =
             Inl (Errorf ''parsing failed for %s. Invalid resource Id format'' [ArgString []])"
    by code_simp
  have ok: "ret_err (Prepare env0 (platformConfig, [''source'', ''image_resource_id''])) = None"
    by code_simp
  have src: "Source (b_config (Prepare env0 (platformConfig, [''source'', ''image_resource_id''])))
               = ''Canonical:UbuntuServer:18.04-LTS:latest''"
    by code_simp
  have z: "Source (fst (Decode env0 (zeroConfig, []))) = []"
    "\<not> FromScratch (fst (Decode env0 (zeroConfig, [])))"
    by code_simp+
  from Prepare_from_scratch_xor_source [OF u r, of "(platformConfig, [''source'', ''image_resource_id''])"]
    ok src
  have "\<not> FromScratch (b_config (Prepare env0 (platformConfig, [''source'', ''image_resource_id''])))"
    by simp
  moreover from Prepare_from_scratch_xor_source [OF u r, of "(zeroConfig, [])"] z
  have "ret_err (Prepare env0 (zeroConfig, [])) \<noteq> None"
    by simp
  ultimately show ?thesis using u r ok src z by simp
qed

text \<open>
  C4. A raw configuration that sets no \<^verbatim>\<open>image_resource_id\<close> and no valid
  \<^verbatim>\<open>shared_image_destination\<close> (the key is absent from the decoded keys, or the
  destination's validator reports an error) makes \<open>Prepare\<close> return an error.
\<close>

theorem Prepare_requires_output:
  assumes "Decode env raws = (c, keys, eo)"
    and "ImageResourceID c = []"
    and "\<not> (StringsContains keys ''shared_image_destination'' \<and>
             fst (Validate env (SharedImageGalleryDestination c) ''shared_image_destination'') = [])"
  shows "ret_err (Prepare env raws) \<noteq> None"
proof
  assume "ret_err (Prepare env raws) = None"
  then obtain c' keys' cc where d: "Decode env raws = (c', keys', None)"
    and n: "fst (snd (defaultsAndChecks env keys' (c'\<lparr>ClientConfig := cc\<rparr>))) = None"
    by (rule Prepare_ok)
  from d assms(1) have [simp]: "c' = c" "keys' = keys" by simp_all
  from defaultsAndChecks_None(2) [OF n] assms(2,3) show False
    by (simp split: if_splits)
qed

theorem Prepare_requires_output_witness:
  "Decode env0 (zeroConfig\<lparr>Source := diskID0\<rparr>, [''source'']) =
     (zeroConfig\<lparr>Source := diskID0\<rparr>, [''source''], None)
   \<and> ImageResourceID (zeroConfig\<lparr>Source := diskID0\<rparr>) = []
   \<and> \<not> StringsContains [''source''] ''shared_image_destination''
   \<and> ret_err (Prepare env0 (zeroConfig\<lparr>Source := diskID0\<rparr>, [''source'']))
       = Some (MultiErrorPtr [outputRequiredError])"
proof -
  have d: "Decode env0 (zeroConfig\<lparr>Source := diskID0\<rparr>, [''source'']) =
             (zeroConfig\<lparr>Source := diskID0\<rparr>, [''source''], None)"
    by (simp add: env0_def)
  have i: "ImageResourceID (zeroConfig\<lparr>Source := diskID0\<rparr>) = []"
    by (simp add: zeroConfig_def)
  have k: "\<not> StringsContains [''source''] ''shared_image_destination''"
    by simp
  have e: "ret_err (Prepare env0 (zeroConfig\<lparr>Source := diskID0\<rparr>, [''source'']))
             = Some (MultiErrorPtr [outputRequiredError])"
    by code_simp
  from Prepare_requires_output [OF d i] k
  have "ret_err (Prepare env0 (zeroConfig\<lparr>Source := diskID0\<rparr>, [''source''])) \<noteq> None"
    by simp
  with d i k e show ?thesis by simp
qed

subsection \<open>The shape of the step list\<close>

lemma buildsteps_eq:
  "buildsteps env config info =
     (case sourceSteps env config info of
        Inl p \<Rightarrow> Inl p
      | Inr src \<Rightarrow>
          Inr ((if hasValidSharedImage env config
                then [StepVerifySharedImageDestination (SharedImageGalleryDestination config)
                        (Location info)]
                else [])
               @ src @ chrootSteps config
               @ (if ImageResourceID config \<noteq> []
                  then [StepCreateImage (ImageResourceID config) Generalized (OSDiskCacheType config)
                          (OSDiskStorageAccountType config) (Location info)]
                  else [])
               @ (if hasValidSharedImage env config
                  then [StepCreateSnapshot (TemporaryOSDiskSnapshotID config) (Location info)
                          (SkipCleanup config),
                        StepCreateSharedImageVersion (SharedImageGalleryDestination config)
                          (OSDiskCacheType config) (Location info)]
                  else [])))"
  by (simp add: buildsteps_def Let_def split: sum.splits)

lemma sourceSteps_cases:
  assumes "sourceSteps env config info = Inr src"
  obtains (scratch) "FromScratch config"
      "src = [StepCreateNewDisk (TemporaryOSDiskID config) (OSDiskSizeGB config)
                (OSDiskStorageAccountType config) (ImageHyperVGeneration config) (Location info)
                None [] False]"
  | (platform) pi where "\<not> FromScratch config" "sourceType config = sourcePlatformImage"
      "ParsePlatformImageURN env (Source config) = Inr pi"
      "src = (if EqualFold (Version pi) ''latest''
              then [StepResolvePlatformImageVersion pi (Location info)] else [])
             @ [StepCreateNewDisk (TemporaryOSDiskID config) (OSDiskSizeGB config)
                  (OSDiskStorageAccountType config) (ImageHyperVGeneration config)
                  (Location info) (Some pi) [] (SkipCleanup config)]"
  | (disk) "\<not> FromScratch config" "sourceType config = sourceDisk"
      "src = [StepVerifySourceDisk (Source config) (Location info),
              StepCreateNewDisk (TemporaryOSDiskID config) (OSDiskSizeGB config)
                (OSDiskStorageAccountType config) (ImageHyperVGeneration config) (Location info)
                None (Source config) (SkipCleanup config)]"
  using assms
  by (auto simp: sourceSteps_def split: if_splits sum.splits)

lemma sourceSteps_provision:
  assumes "sourceSteps env config info = Inr src"
  shows "filter provisionOrLaterStep src = []"
  using assms by (rule sourceSteps_cases) simp_all

lemma sourceSteps_skip:
  assumes "sourceSteps env config info = Inr src"
  shows "concat (map createDiskSkipCleanup src) = [\<not> FromScratch config \<and> SkipCleanup config]"
  using assms by (rule sourceSteps_cases) simp_all

lemma chrootSteps_kinds:
  "filter provisionOrLaterStep (chrootSteps config) = [StepChrootProvision, StepEarlyCleanup]"
  "filter versionOrDiskStep (chrootSteps config) = []"
  "concat (map createDiskSkipCleanup (chrootSteps config)) = []"
  by (simp_all add: chrootSteps_def)

lemma buildsteps_Inr:
  assumes "buildsteps env config info = Inr steps"
  obtains src where "sourceSteps env config info = Inr src"
  using assms by (cases "sourceSteps env config info") (simp_all add: buildsteps_eq)

text \<open>
  C8. In every step list that \<open>buildsteps\<close> returns, the steps from provisioning on are,
  in this order: the provisioning step, the early-cleanup step, the create-image step
  exactly when \<^verbatim>\<open>image_resource_id\<close> is not empty, and the snapshot step followed by the
  shared-image-version step exactly when the shared image destination validates. So the
  early cleanup runs after provisioning and before every output step, and none, one or both
  outputs are present.
\<close>

theorem buildsteps_early_cleanup_before_output:
  assumes "buildsteps env config info = Inr steps"
  shows "filter provisionOrLaterStep steps =
           [StepChrootProvision, StepEarlyCleanup]
           @ (if ImageResourceID config \<noteq> []
              then [StepCreateImage (ImageResourceID config) Generalized (OSDiskCacheType config)
                      (OSDiskStorageAccountType config) (Location info)]
              else [])
           @ (if hasValidSharedImage env config
              then [StepCreateSnapshot (TemporaryOSDiskSnapshotID config) (Location info)
                      (SkipCleanup config),
                    StepCreateSharedImageVersion (SharedImageGalleryDestination config)
                      (OSDiskCacheType config) (Location info)]
              else [])"
proof -
  from assms obtain src where src: "sourceSteps env config info = Inr src"
    by (rule buildsteps_Inr)
  with assms have "steps =
      (if hasValidSharedImage env config
       then [StepVerifySharedImageDestination (SharedImageGalleryDestination config) (Location info)]
       else [])
      @ src @ chrootSteps config
      @ (if ImageResourceID config \<noteq> []
         then [StepCreateImage (ImageResourceID config) Generalized (OSDiskCacheType config)
                 (OSDiskStorageAccountType config) (Location info)]
         else [])
      @ (if hasValidSharedImage env config
         then [StepCreateSnapshot (TemporaryOSDiskSnapshotID config) (Location info)
                 (SkipCleanup config),
               StepCreateSharedImageVersion (SharedImageGalleryDestination config)
                 (OSDiskCacheType config) (Location info)]
         else [])"
    by (simp add: buildsteps_eq)
  then show ?thesis
    by (simp add: sourceSteps_provision [OF src] chrootSteps_kinds)
qed

theorem buildsteps_early_cleanup_before_output_witness:
  "buildsteps env0 diskResolved info0 =
     Inr ([StepVerifySharedImageDestination gallery0 ''westus2'',
           StepVerifySourceDisk diskID0 ''westus2'',
           StepCreateNewDisk temporaryDiskTemplate 0 PremiumLRS V1 ''westus2'' None diskID0 True]
          @ chrootSteps diskResolved
          @ [StepCreateSnapshot temporarySnapshotTemplate ''westus2'' True,
             StepCreateSharedImageVersion gallery0 CachingTypesReadOnly ''westus2''])
   \<and> filter provisionOrLaterStep
        ([StepVerifySharedImageDestination gallery0 ''westus2'',
          StepVerifySourceDisk diskID0 ''westus2'',
          StepCreateNewDisk temporaryDiskTemplate 0 PremiumLRS V1 ''westus2'' None diskID0 True]
         @ chrootSteps diskResolved
         @ [StepCreateSnapshot temporarySnapshotTemplate ''westus2'' True,
            StepCreateSharedImageVersion gallery0 CachingTypesReadOnly ''westus2''])
      = [StepChrootProvision, StepEarlyCleanup,
         StepCreateSnapshot temporarySnapshotTemplate ''westus2'' True,
         StepCreateSharedImageVersion gallery0 CachingTypesReadOnly ''westus2'']"
proof -
  have b: "buildsteps env0 diskResolved info0 =
     Inr ([StepVerifySharedImageDestination gallery0 ''westus2'',
           StepVerifySourceDisk diskID0 ''westus2'',
           StepCreateNewDisk temporaryDiskTemplate 0 PremiumLRS V1 ''westus2'' None diskID0 True]
          @ chrootSteps diskResolved
          @ [StepCreateSnapshot temporarySnapshotTemplate ''westus2'' True,
             StepCreateSharedImageVersion gallery0 CachingTypesReadOnly ''westus2''])"
    by code_simp
  have c: "ImageResourceID diskResolved = []" "hasValidSharedImage env0 diskResolved"
    "TemporaryOSDiskSnapshotID diskResolved = temporarySnapshotTemplate"
    "Location info0 = ''westus2''" "SkipCleanup diskResolved"
    "SharedImageGalleryDestination diskResolved = gallery0"
    "OSDiskCacheType diskResolved = CachingTypesReadOnly"
    by code_simp+
  from buildsteps_early_cleanup_before_output [OF b] c b show ?thesis
    by simp
qed

text \<open>
  C10. With \<^verbatim>\<open>from_scratch\<close>, \<open>buildsteps\<close> returns a step list, and the one create-disk
  step of every returned step list carries \<^verbatim>\<open>SkipCleanup\<close> false with
  \<^verbatim>\<open>from_scratch\<close>, whatever \<^verbatim>\<open>skip_cleanup\<close> is, and the configuration's
  \<^verbatim>\<open>skip_cleanup\<close> in the platform-image and existing-disk modes.
\<close>

theorem buildsteps_from_scratch_skip_cleanup:
  "(FromScratch config \<longrightarrow> (\<exists>steps. buildsteps env config info = Inr steps))
   \<and> (buildsteps env config info = Inr steps \<longrightarrow>
        concat (map createDiskSkipCleanup steps) = [\<not> FromScratch config \<and> SkipCleanup config])"
proof (intro conjI impI)
  assume "FromScratch config"
  then show "\<exists>steps. buildsteps env config info = Inr steps"
    by (simp add: buildsteps_eq sourceSteps_def)
next
  assume b: "buildsteps env config info = Inr steps"
  then obtain src where src: "sourceSteps env config info = Inr src"
    by (rule buildsteps_Inr)
  with b show "concat (map createDiskSkipCleanup steps) = [\<not> FromScratch config \<and> SkipCleanup config]"
    using sourceSteps_skip [OF src]
    by (auto simp: buildsteps_eq chrootSteps_kinds)
qed

theorem buildsteps_from_scratch_skip_cleanup_witness:
  "FromScratch scratchResolved \<and> SkipCleanup scratchResolved
   \<and> buildsteps env0 scratchResolved info0 =
       Inr ([StepCreateNewDisk temporaryDiskTemplate 30 PremiumLRS V1 ''westus2'' None [] False]
            @ chrootSteps scratchResolved
            @ [StepCreateImage imageID0 Generalized CachingTypesReadOnly PremiumLRS ''westus2''])
   \<and> concat (map createDiskSkipCleanup
        ([StepCreateNewDisk temporaryDiskTemplate 30 PremiumLRS V1 ''westus2'' None [] False]
         @ chrootSteps scratchResolved
         @ [StepCreateImage imageID0 Generalized CachingTypesReadOnly PremiumLRS ''westus2'']))
      = [False]"
proof -
  have c: "FromScratch scratchResolved" "SkipCleanup scratchResolved"
    by code_simp+
  have b: "buildsteps env0 scratchResolved info0 =
       Inr ([StepCreateNewDisk temporaryDiskTemplate 30 PremiumLRS V1 ''westus2'' None [] False]
            @ chrootSteps scratchResolved
            @ [StepCreateImage imageID0 Generalized CachingTypesReadOnly PremiumLRS ''westus2''])"
    by code_simp
  from buildsteps_from_scratch_skip_cleanup [of scratchResolved env0 info0
      "[StepCreateNewDisk temporaryDiskTemplate 30 PremiumLRS V1 ''westus2'' None [] False]
       @ chrootSteps scratchResolved
       @ [StepCreateImage imageID0 Generalized CachingTypesReadOnly PremiumLRS ''westus2'']"]
    b c
  show ?thesis
    by simp
qed

text \<open>
  C6, as the code has it. For a configuration whose source is classified as a platform image
  and parses to \<open>pi\<close>, \<open>buildsteps\<close> returns a step list in which the version and disk
  steps are: the resolve step followed by the create-disk step when the version equals
  "latest" under \<^verbatim>\<open>strings.EqualFold\<close> (that is, in any letter case), and the
  create-disk step alone for every other version.
\<close>

theorem buildsteps_resolves_latest:
  assumes "\<not> FromScratch config"
    and "sourceType config = sourcePlatformImage"
    and "ParsePlatformImageURN env (Source config) = Inr pi"
  shows "\<exists>steps. buildsteps env config info = Inr steps
           \<and> filter versionOrDiskStep steps =
               (if EqualFold (Version pi) ''latest''
                then [StepResolvePlatformImageVersion pi (Location info)] else [])
               @ [StepCreateNewDisk (TemporaryOSDiskID config) (OSDiskSizeGB config)
                    (OSDiskStorageAccountType config) (ImageHyperVGeneration config)
                    (Location info) (Some pi) [] (SkipCleanup config)]"
  using assms by (simp add: buildsteps_eq sourceSteps_def chrootSteps_kinds)

theorem buildsteps_resolves_latest_witness:
  "\<not> FromScratch platformResolved
   \<and> sourceType platformResolved = sourcePlatformImage
   \<and> ParsePlatformImageURN env0 (Source platformResolved) = Inr latestImage
   \<and> EqualFold (Version latestImage) ''latest''
   \<and> buildsteps env0 platformResolved info0 =
       Inr ([StepResolvePlatformImageVersion latestImage ''westus2'',
             StepCreateNewDisk temporaryDiskTemplate 0 PremiumLRS V1 ''westus2'' (Some latestImage)
               [] False]
            @ chrootSteps platformResolved
            @ [StepCreateImage imageID0 Generalized CachingTypesReadOnly PremiumLRS ''westus2''])
   \<and> filter versionOrDiskStep
        ([StepResolvePlatformImageVersion latestImage ''westus2'',
          StepCreateNewDisk temporaryDiskTemplate 0 PremiumLRS V1 ''westus2'' (Some latestImage)
            [] False]
         @ chrootSteps platformResolved
         @ [StepCreateImage imageID0 Generalized CachingTypesReadOnly PremiumLRS ''westus2''])
      = [StepResolvePlatformImageVersion latestImage ''westus2'',
         StepCreateNewDisk temporaryDiskTemplate 0 PremiumLRS V1 ''westus2'' (Some latestImage)
           [] False]"
proof -
  have h: "\<not> FromScratch platformResolved"
    "sourceType platformResolved = sourcePlatformImage"
    "ParsePlatformImageURN env0 (Source platformResolved) = Inr latestImage"
    by code_simp+
  have v: "EqualFold (Version latestImage) ''latest''"
    by code_simp
  have b: "buildsteps env0 platformResolved info0 =
       Inr ([StepResolvePlatformImageVersion latestImage ''westus2'',
             StepCreateNewDisk temporaryDiskTemplate 0 PremiumLRS V1 ''westus2'' (Some latestImage)
               [] False]
            @ chrootSteps platformResolved
            @ [StepCreateImage imageID0 Generalized CachingTypesReadOnly PremiumLRS ''westus2''])"
    by code_simp
  have c: "TemporaryOSDiskID platformResolved = temporaryDiskTemplate"
    "OSDiskSizeGB platformResolved = 0" "OSDiskStorageAccountType platformResolved = PremiumLRS"
    "ImageHyperVGeneration platformResolved = V1" "Location info0 = ''westus2''"
    "\<not> SkipCleanup platformResolved"
    by code_simp+
  from buildsteps_resolves_latest [OF h, of info0] v b c h show ?thesis
    by simp
qed

text \<open>
  C6 as stated fails for a version that is not the string "latest": with the version
  "LATEST" the resolve step is emitted, before the create-disk step.
\<close>

theorem buildsteps_resolves_capital_latest:
  "\<not> FromScratch upperResolved
   \<and> sourceType upperResolved = sourcePlatformImage
   \<and> ParsePlatformImageURN env0 (Source upperResolved) = Inr upperImage
   \<and> Version upperImage = ''LATEST''
   \<and> Version upperImage \<noteq> ''latest''
   \<and> buildsteps env0 upperResolved info0 =
       Inr ([StepResolvePlatformImageVersion upperImage ''westus2'',
             StepCreateNewDisk temporaryDiskTemplate 0 PremiumLRS V1 ''westus2'' (Some upperImage)
               [] False]
            @ chrootSteps upperResolved
            @ [StepCreateImage imageID0 Generalized CachingTypesReadOnly PremiumLRS ''westus2''])"
  by code_simp

subsection \<open>From Prepare to buildsteps\<close>

lemma sourceSteps_prepared:
  assumes n: "fst (snd (defaultsAndChecks env keys c0)) = None"
  shows "\<exists>src. sourceSteps env ((fst (defaultsAndChecks env keys c0))\<lparr>ClientConfig := cc\<rparr>) info = Inr src"
proof (cases "FromScratch c0")
  case True
  then show ?thesis
    by (simp add: sourceSteps_def defaultsAndChecks_frame)
next
  case False
  show ?thesis
  proof (cases "ParsePlatformImageURN env (Source c0)")
    case (Inr pi)
    with False show ?thesis
      by (simp add: sourceSteps_def defaultsAndChecks_frame defaultsAndChecks_sourceType)
  next
    case (Inl e)
    with False defaultsAndChecks_None(1) [OF n] have "isDiskResourceID env (Source c0)"
      by simp
    with False Inl show ?thesis
      by (simp add: sourceSteps_def defaultsAndChecks_frame defaultsAndChecks_sourceType
            sourceDisk_def sourcePlatformImage_def)
  qed
qed

lemma Run_panic:
  assumes "Run env b = Inl p"
  shows "p = PanicTypeAssertion \<or> (\<exists>cc info. buildsteps env (b\<lparr>ClientConfig := cc\<rparr>) info = Inl p)"
  using assms
  by (auto simp: Run_def Let_def split: if_splits prod.splits option.splits sum.splits state_value.splits)

text \<open>
  C9. For the configuration that a successful \<open>Prepare\<close> leaves in the builder,
  \<open>buildsteps\<close> returns a step list (it reaches neither panic), whatever the compute
  info and whatever \<^verbatim>\<open>FillParameters\<close> has made of the client configuration in between;
  so \<open>Run\<close> on that configuration ends with neither of the two panics of
  \<open>buildsteps\<close>.
\<close>

theorem buildsteps_after_Prepare:
  assumes ok: "ret_err (Prepare env raws) = None"
  shows "(\<exists>steps. buildsteps env ((b_config (Prepare env raws))\<lparr>ClientConfig := cc\<rparr>) info = Inr steps)
         \<and> (\<exists>steps. buildsteps env (b_config (Prepare env raws)) info = Inr steps)
         \<and> Run env (b_config (Prepare env raws)) \<noteq> Inl (PanicString args)
         \<and> Run env (b_config (Prepare env raws)) \<noteq> Inl (PanicError e)"
proof -
  from ok obtain c keys cc' where d: "Decode env raws = (c, keys, None)"
    and s: "SetDefaultValues env (ClientConfig c) = (cc', None)"
    and n: "fst (snd (defaultsAndChecks env keys (c\<lparr>ClientConfig := cc'\<rparr>))) = None"
    by (rule Prepare_ok)
  let ?b = "b_config (Prepare env raws)"
  have b: "?b = fst (defaultsAndChecks env keys (c\<lparr>ClientConfig := cc'\<rparr>))"
    by (rule Prepare_checked(1) [OF d s])
  have any: "\<exists>steps. buildsteps env (?b\<lparr>ClientConfig := x\<rparr>) info' = Inr steps" for x info'
  proof -
    from sourceSteps_prepared [OF n, of x info'] b
    obtain src where "sourceSteps env (?b\<lparr>ClientConfig := x\<rparr>) info' = Inr src"
      by auto
    then show ?thesis
      by (simp add: buildsteps_eq)
  qed
  have same: "?b\<lparr>ClientConfig := ClientConfig ?b\<rparr> = ?b"
    by simp
  from any [of "ClientConfig ?b" info] same
  have here: "\<exists>steps. buildsteps env ?b info = Inr steps"
    by simp
  have run: "Run env ?b \<noteq> Inl p" if p: "p \<noteq> PanicTypeAssertion" for p
  proof
    assume "Run env ?b = Inl p"
    from Run_panic [OF this] p
    obtain x i where "buildsteps env (?b\<lparr>ClientConfig := x\<rparr>) i = Inl p"
      by blast
    moreover from any [of x i]
    obtain steps where "buildsteps env (?b\<lparr>ClientConfig := x\<rparr>) i = Inr steps"
      by blast
    ultimately show False
      by simp
  qed
  from any [of cc info] here run [of "PanicString args"] run [of "PanicError e"] show ?thesis
    by simp
qed

theorem buildsteps_after_Prepare_witness:
  "ret_err (Prepare env0 (diskConfig, [''source'', ''skip_cleanup'', ''shared_image_destination''])) = None
   \<and> sourceType (b_config (Prepare env0
         (diskConfig, [''source'', ''skip_cleanup'', ''shared_image_destination'']))) = sourceDisk
   \<and> (\<exists>steps. buildsteps env0
         (b_config (Prepare env0 (diskConfig, [''source'', ''skip_cleanup'', ''shared_image_destination''])))
         info0 = Inr steps)"
proof -
  have ok: "ret_err (Prepare env0
              (diskConfig, [''source'', ''skip_cleanup'', ''shared_image_destination''])) = None"
    by code_simp
  have t: "sourceType (b_config (Prepare env0
             (diskConfig, [''source'', ''skip_cleanup'', ''shared_image_destination'']))) = sourceDisk"
    by code_simp
  from buildsteps_after_Prepare [OF ok, of _ info0] ok t show ?thesis
    by simp
qed

subsection \<open>Defaults\<close>

lemma defaultsAndChecks_strings:
  "CommandWrapper (fst (defaultsAndChecks env keys c0)) =
     (if CommandWrapper c0 = [] then ''{{.Command}}'' else CommandWrapper c0)"
  "MountPath (fst (defaultsAndChecks env keys c0)) =
     (if MountPath c0 = [] then ''/mnt/packer-azure-chroot-disks/{{.Device}}'' else MountPath c0)"
  "MountPartition (fst (defaultsAndChecks env keys c0)) =
     (if MountPartition c0 = [] then ''1'' else MountPartition c0)"
  "OSDiskStorageAccountType (fst (defaultsAndChecks env keys c0)) =
     (if OSDiskStorageAccountType c0 = [] then PremiumLRS else OSDiskStorageAccountType c0)"
  "OSDiskCacheType (fst (defaultsAndChecks env keys c0)) =
     (if OSDiskCacheType c0 = [] then CachingTypesReadOnly else OSDiskCacheType c0)"
  "ImageHyperVGeneration (fst (defaultsAndChecks env keys c0)) =
     (if ImageHyperVGeneration c0 = [] then V1 else ImageHyperVGeneration c0)"
  by (simp_all add: defaultsAndChecks_def Let_def case_prod_beta config_simps
        split del: if_split cong: if_cong sum.case_cong)

lemma defaultsAndChecks_given:
  "PreMountCommands (fst (defaultsAndChecks env keys c0)) = PreMountCommands c0"
  "PostMountCommands (fst (defaultsAndChecks env keys c0)) = PostMountCommands c0"
  "MountOptions (fst (defaultsAndChecks env keys c0)) = MountOptions c0"
  "OSDiskSizeGB (fst (defaultsAndChecks env keys c0)) = OSDiskSizeGB c0"
  by (simp_all add: defaultsAndChecks_def Let_def case_prod_beta config_simps
        split del: if_split cong: if_cong sum.case_cong)

lemma defaultsAndChecks_temporary:
  "TemporaryOSDiskID c0 \<noteq> [] \<Longrightarrow>
     TemporaryOSDiskID (fst (defaultsAndChecks env keys c0)) = TemporaryOSDiskID c0"
  "TemporaryOSDiskSnapshotID c0 \<noteq> [] \<Longrightarrow>
     TemporaryOSDiskSnapshotID (fst (defaultsAndChecks env keys c0)) = TemporaryOSDiskSnapshotID c0"
  by (simp_all add: defaultsAndChecks_def Let_def case_prod_beta config_simps
        split del: if_split cong: if_cong sum.case_cong)

text \<open>
  C7, as the code has it. When decoding and the client defaults succeed, \<open>Prepare\<close>
  leaves in the builder: for \<^verbatim>\<open>chroot_mounts\<close> the fixed list of five mounts (proc, sysfs,
  bind, devpts, binfmt_misc) exactly when the decoded list is nil or empty, and the decoded
  list otherwise; for \<^verbatim>\<open>copy_files\<close> the list with /etc/resolv.conf exactly when the
  decoded list is nil and \<^verbatim>\<open>from_scratch\<close> is false, and the decoded list otherwise (an
  empty list given by the user included); for each defaulted string its default exactly when
  it is empty; a given temporary disk or snapshot id as it is; and the other fields as decoded.
\<close>

theorem Prepare_defaults:
  assumes d: "Decode env raws = (c, keys, None)"
    and s: "SetDefaultValues env (ClientConfig c) = (cc, None)"
  shows "ChrootMounts (b_config (Prepare env raws)) =
           (if ChrootMounts c = None \<or> ChrootMounts c = Some [] then Some defaultChrootMounts
            else ChrootMounts c)
         \<and> CopyFiles (b_config (Prepare env raws)) =
           (if CopyFiles c = None \<and> \<not> FromScratch c then Some [''/etc/resolv.conf'']
            else CopyFiles c)
         \<and> map hd defaultChrootMounts = [''proc'', ''sysfs'', ''bind'', ''devpts'', ''binfmt_misc'']
         \<and> CommandWrapper (b_config (Prepare env raws)) =
           (if CommandWrapper c = [] then ''{{.Command}}'' else CommandWrapper c)
         \<and> MountPath (b_config (Prepare env raws)) =
           (if MountPath c = [] then ''/mnt/packer-azure-chroot-disks/{{.Device}}'' else MountPath c)
         \<and> MountPartition (b_config (Prepare env raws)) =
           (if MountPartition c = [] then ''1'' else MountPartition c)
         \<and> OSDiskStorageAccountType (b_config (Prepare env raws)) =
           (if OSDiskStorageAccountType c = [] then PremiumLRS else OSDiskStorageAccountType c)
         \<and> OSDiskCacheType (b_config (Prepare env raws)) =
           (if OSDiskCacheType c = [] then CachingTypesReadOnly else OSDiskCacheType c)
         \<and> ImageHyperVGeneration (b_config (Prepare env raws)) =
           (if ImageHyperVGeneration c = [] then V1 else ImageHyperVGeneration c)
         \<and> (TemporaryOSDiskID c \<noteq> [] \<longrightarrow>
              TemporaryOSDiskID (b_config (Prepare env raws)) = TemporaryOSDiskID c)
         \<and> (TemporaryOSDiskSnapshotID c \<noteq> [] \<longrightarrow>
              TemporaryOSDiskSnapshotID (b_config (Prepare env raws)) = TemporaryOSDiskSnapshotID c)
         \<and> FromScratch (b_config (Prepare env raws)) = FromScratch c
         \<and> Source (b_config (Prepare env raws)) = Source c
         \<and> PreMountCommands (b_config (Prepare env raws)) = PreMountCommands c
         \<and> PostMountCommands (b_config (Prepare env raws)) = PostMountCommands c
         \<and> MountOptions (b_config (Prepare env raws)) = MountOptions c
         \<and> OSDiskSizeGB (b_config (Prepare env raws)) = OSDiskSizeGB c
         \<and> SkipCleanup (b_config (Prepare env raws)) = SkipCleanup c
         \<and> ImageResourceID (b_config (Prepare env raws)) = ImageResourceID c
         \<and> SharedImageGalleryDestination (b_config (Prepare env raws)) =
             SharedImageGalleryDestination c"
proof -
  let ?c0 = "c\<lparr>ClientConfig := cc\<rparr>"
  have b: "b_config (Prepare env raws) = fst (defaultsAndChecks env keys ?c0)"
    by (rule Prepare_checked(1) [OF d s])
  have names: "map hd defaultChrootMounts = [''proc'', ''sysfs'', ''bind'', ''devpts'', ''binfmt_misc'']"
    by (simp add: defaultChrootMounts_def)
  show ?thesis
    unfolding b
    by (simp add: defaultsAndChecks_lists defaultsAndChecks_strings defaultsAndChecks_given
          defaultsAndChecks_temporary defaultsAndChecks_frame names
          split del: if_split cong: if_cong)
qed

theorem Prepare_defaults_witness:
  "Decode env0
     (platformConfig\<lparr>ChrootMounts := Some [[''bind'', ''/run'', ''/run'']], CopyFiles := Some []\<rparr>,
      [''source'', ''image_resource_id'', ''chroot_mounts'', ''copy_files'']) =
     (platformConfig\<lparr>ChrootMounts := Some [[''bind'', ''/run'', ''/run'']], CopyFiles := Some []\<rparr>,
      [''source'', ''image_resource_id'', ''chroot_mounts'', ''copy_files''], None)
   \<and> SetDefaultValues env0 (ClientConfig
         (platformConfig\<lparr>ChrootMounts := Some [[''bind'', ''/run'', ''/run'']], CopyFiles := Some []\<rparr>)) =
       (\<lparr>ClientSecret = [], ClientJWT = []\<rparr>, None)
   \<and> ChrootMounts (b_config (Prepare env0
         (platformConfig\<lparr>ChrootMounts := Some [[''bind'', ''/run'', ''/run'']], CopyFiles := Some []\<rparr>,
          [''source'', ''image_resource_id'', ''chroot_mounts'', ''copy_files'']))) =
       Some [[''bind'', ''/run'', ''/run'']]
   \<and> CopyFiles (b_config (Prepare env0
         (platformConfig\<lparr>ChrootMounts := Some [[''bind'', ''/run'', ''/run'']], CopyFiles := Some []\<rparr>,
          [''source'', ''image_resource_id'', ''chroot_mounts'', ''copy_files'']))) =
       Some []
   \<and> MountPartition (b_config (Prepare env0
         (platformConfig\<lparr>ChrootMounts := Some [[''bind'', ''/run'', ''/run'']], CopyFiles := Some []\<rparr>,
          [''source'', ''image_resource_id'', ''chroot_mounts'', ''copy_files'']))) =
       ''1''"
proof -
  let ?c = "platformConfig\<lparr>ChrootMounts := Some [[''bind'', ''/run'', ''/run'']], CopyFiles := Some []\<rparr>"
  let ?keys = "[''source'', ''image_resource_id'', ''chroot_mounts'', ''copy_files'']"
  have d: "Decode env0 (?c, ?keys) = (?c, ?keys, None)"
    by (simp add: env0_def)
  have s: "SetDefaultValues env0 (ClientConfig ?c) = (\<lparr>ClientSecret = [], ClientJWT = []\<rparr>, None)"
    by (simp add: env0_def platformConfig_def zeroConfig_def)
  have c: "ChrootMounts ?c = Some [[''bind'', ''/run'', ''/run'']]" "CopyFiles ?c = Some []"
    "MountPartition ?c = []"
    by (simp_all add: platformConfig_def zeroConfig_def)
  from Prepare_defaults [OF d s] c d s show ?thesis
    by simp
qed

text \<open>
  C7 as stated fails for an empty list given by the user: \<^verbatim>\<open>chroot_mounts = []\<close> is
  replaced by the five default mounts.
\<close>

theorem Prepare_replaces_empty_chroot_mounts:
  "ChrootMounts (fst (Decode env0
       (platformConfig\<lparr>ChrootMounts := Some []\<rparr>, [''source'', ''image_resource_id'', ''chroot_mounts'']))) = Some []
   \<and> ret_err (Prepare env0
       (platformConfig\<lparr>ChrootMounts := Some []\<rparr>, [''source'', ''image_resource_id'', ''chroot_mounts''])) = None
   \<and> ChrootMounts (b_config (Prepare env0
       (platformConfig\<lparr>ChrootMounts := Some []\<rparr>, [''source'', ''image_resource_id'', ''chroot_mounts'']))) =
      Some defaultChrootMounts
   \<and> length defaultChrootMounts = 5"
  by code_simp

subsection \<open>Source classification\<close>

text \<open>
  C5. Without \<^verbatim>\<open>from_scratch\<close>, the source block of \<open>Prepare\<close> does what the
  classification says, which gives every source string exactly one of three classes, the
  platform image parse first, the disk class for a resource identifier whose provider equals
  Microsoft.Compute and whose type equals disks under \<^verbatim>\<open>strings.EqualFold\<close>: the block
  sets the source type to the class (two distinct tags) and, for an invalid source, leaves
  it as it is and appends the source error; and \<open>Prepare\<close> leaves that source type in the
  builder and, for an invalid source, returns an error.
\<close>

theorem Prepare_classifies_source:
  assumes scratch: "\<not> FromScratch c"
    and d: "Decode env raws = (c, keys, None)"
    and s: "SetDefaultValues env (ClientConfig c) = (cc, None)"
  shows "checkSource env (c, errs) =
           (case classifySource env (Source c) of
              ClassPlatformImage \<Rightarrow> (c\<lparr>sourceType := sourcePlatformImage\<rparr>, errs)
            | ClassExistingDisk \<Rightarrow> (c\<lparr>sourceType := sourceDisk\<rparr>, errs)
            | ClassInvalid \<Rightarrow> (c, Some (MultiErrorAppend (asError errs) [sourceError (Source c)])))
         \<and> (case classifySource env (Source c) of
              ClassPlatformImage \<Rightarrow> sourceType (b_config (Prepare env raws)) = sourcePlatformImage
            | ClassExistingDisk \<Rightarrow> sourceType (b_config (Prepare env raws)) = sourceDisk
            | ClassInvalid \<Rightarrow>
                sourceType (b_config (Prepare env raws)) = sourceType c
                \<and> ret_err (Prepare env raws) \<noteq> None)
         \<and> sourcePlatformImage \<noteq> sourceDisk"
proof -
  let ?c0 = "c\<lparr>ClientConfig := cc\<rparr>"
  have b: "b_config (Prepare env raws) = fst (defaultsAndChecks env keys ?c0)"
    by (rule Prepare_checked(1) [OF d s])
  have block: "checkSource env (c, errs) =
           (case classifySource env (Source c) of
              ClassPlatformImage \<Rightarrow> (c\<lparr>sourceType := sourcePlatformImage\<rparr>, errs)
            | ClassExistingDisk \<Rightarrow> (c\<lparr>sourceType := sourceDisk\<rparr>, errs)
            | ClassInvalid \<Rightarrow> (c, Some (MultiErrorAppend (asError errs) [sourceError (Source c)])))"
    using scratch
    by (simp add: checkSource_def classifySource_def isDiskResourceID_def split: sum.splits)
  have cls: "classifySource env (Source c) =
               (case ParsePlatformImageURN env (Source c) of
                  Inr pi \<Rightarrow> ClassPlatformImage
                | Inl e \<Rightarrow> if isDiskResourceID env (Source c) then ClassExistingDisk else ClassInvalid)"
    by (simp add: classifySource_def isDiskResourceID_def split: sum.splits)
  have invalid: "ret_err (Prepare env raws) \<noteq> None" if "classifySource env (Source c) = ClassInvalid"
  proof
    assume "ret_err (Prepare env raws) = None"
    then obtain c' keys' cc' where d': "Decode env raws = (c', keys', None)"
      and n: "fst (snd (defaultsAndChecks env keys' (c'\<lparr>ClientConfig := cc'\<rparr>))) = None"
      by (rule Prepare_ok)
    from d d' have "c' = c" by simp
    with defaultsAndChecks_None(1) [OF n] scratch that cls show False
      by (simp split: sum.splits if_splits)
  qed
  have tag: "sourceType (b_config (Prepare env raws)) =
               (case classifySource env (Source c) of
                  ClassPlatformImage \<Rightarrow> sourcePlatformImage
                | ClassExistingDisk \<Rightarrow> sourceDisk
                | ClassInvalid \<Rightarrow> sourceType c)"
    using scratch
    by (simp add: b defaultsAndChecks_sourceType cls split: sum.splits)
  have distinct: "sourcePlatformImage \<noteq> sourceDisk"
    by (simp add: sourcePlatformImage_def sourceDisk_def)
  from block tag invalid distinct show ?thesis
    by (cases "classifySource env (Source c)") simp_all
qed

theorem Prepare_classifies_source_witness:
  "\<not> FromScratch diskConfig
   \<and> Decode env0 (diskConfig, [''source'', ''skip_cleanup'', ''shared_image_destination'']) =
       (diskConfig, [''source'', ''skip_cleanup'', ''shared_image_destination''], None)
   \<and> SetDefaultValues env0 (ClientConfig diskConfig) = (\<lparr>ClientSecret = [], ClientJWT = []\<rparr>, None)
   \<and> classifySource env0 (Source diskConfig) = ClassExistingDisk
   \<and> sourceType (b_config (Prepare env0
         (diskConfig, [''source'', ''skip_cleanup'', ''shared_image_destination'']))) = sourceDisk
   \<and> classifySource env0 ''Canonical:UbuntuServer:18.04-LTS:latest'' = ClassPlatformImage
   \<and> classifySource env0 ''/subscriptions/x/resourceGroups/y/providers/Microsoft.Compute/disks/z''
       = ClassExistingDisk
   \<and> classifySource env0 ''not-a-valid-thing'' = ClassInvalid"
proof -
  let ?keys = "[''source'', ''skip_cleanup'', ''shared_image_destination'']"
  have f: "\<not> FromScratch diskConfig"
    by (simp add: diskConfig_def zeroConfig_def)
  have d: "Decode env0 (diskConfig, ?keys) = (diskConfig, ?keys, None)"
    by (simp add: env0_def)
  have s: "SetDefaultValues env0 (ClientConfig diskConfig) = (\<lparr>ClientSecret = [], ClientJWT = []\<rparr>, None)"
    by (simp add: env0_def diskConfig_def zeroConfig_def)
  have k: "classifySource env0 (Source diskConfig) = ClassExistingDisk"
    by code_simp
  have ex: "classifySource env0 ''Canonical:UbuntuServer:18.04-LTS:latest'' = ClassPlatformImage"
    "classifySource env0 ''/subscriptions/x/resourceGroups/y/providers/Microsoft.Compute/disks/z''
       = ClassExistingDisk"
    "classifySource env0 ''not-a-valid-thing'' = ClassInvalid"
    by code_simp+
  from Prepare_classifies_source [OF f d s] k
  have "sourceType (b_config (Prepare env0 (diskConfig, ?keys))) = sourceDisk"
    by simp
  with f d s k ex show ?thesis
    by simp
qed

subsection \<open>Two places where the code loses what it has computed\<close>

text \<open>
  C1 asks that \<open>Prepare\<close> return every violation. At line 272 the accumulator is not
  passed to \<^verbatim>\<open>MultiErrorAppend\<close>: for source = "not-a-valid-thing" and
  image_resource_id = "bogus" the source block has accumulated the source error, and
  \<open>Prepare\<close> returns the image error alone.
\<close>

theorem Prepare_drops_accumulated_errors:
  "snd (checkSource env0
          (zeroConfig\<lparr>Source := ''not-a-valid-thing'', ImageResourceID := ''bogus''\<rparr>, None)) =
     Some [sourceError ''not-a-valid-thing'']
   \<and> ret_err (Prepare env0
       (zeroConfig\<lparr>Source := ''not-a-valid-thing'', ImageResourceID := ''bogus''\<rparr>,
        [''source'', ''image_resource_id''])) =
     Some (MultiErrorPtr [imageResourceIDError ''bogus''])"
  by code_simp

text \<open>
  C2 asks that the artifact of a successful \<open>Run\<close> reference the created resources. The
  slice \<^verbatim>\<open>resources\<close> of lines 391 to 397 is never stored in the artifact: with
  image_resource_id set, and with a valid shared image destination, and every step
  succeeding, the returned artifact has no resources.
\<close>

theorem Run_artifact_without_resources:
  "ret_err (Prepare env0 (platformConfig, [''source'', ''image_resource_id''])) = None
   \<and> ImageResourceID platformResolved = imageID0
   \<and> Run env0 platformResolved =
       Inr (Some \<lparr>Resources = [], BuilderIdValue = BuilderID,
                  StateData = [(''generated_data'', None)]\<rparr>, None)
   \<and> hasValidSharedImage env0 diskResolved
   \<and> Run env0 diskResolved =
       Inr (Some \<lparr>Resources = [], BuilderIdValue = BuilderID,
                  StateData = [(''generated_data'', None)]\<rparr>, None)"
  by code_simp

end
